theory Spec2Isabelle
  imports Main "HOL-Library.AList" "HOL-Library.Sublist" "HOL-Library.Char_ord"
    "HOL-Library.List_Lexorder"
begin

section \<open>Files, archives and the operating system\<close>

text \<open>
  The program is a log store written in Go.  Everything it keeps lives in the file
  system, so the model threads a file system value through every operation.

  \<^item> A path is the list of its components below the root directory; the storage
    directory is an absolute path.  A name that the operating system reports (a
    directory entry) is one component.  A name that comes from a request is a
    string that \<^verbatim>\<open>filepath.Join\<close> splits at separators and cleans.
  \<^item> A file system is an association list from paths to nodes.  Its order stands for
    the order in which the operating system lists a directory.
  \<^item> A container is a file that holds a compressed tar stream.  The codecs are
    libraries outside the repository, so such a file is kept in decoded form: its
    format, its entries, and whether the stream ends properly.
  \<^item> Every call that can fail in the source can fail in the model: either because
    of the state of the file system, or because the \<open>world\<close> says so.
\<close>

type_synonym bytes = string
type_synonym fpath = "string list"

datatype typeflag = TypeReg | TypeDir | TypeSymlink | TypeOther

text \<open>One tar entry: the header fields the program reads, and the payload bytes that
  are really present in the stream (fewer than \<open>Size\<close> when the stream was cut).\<close>

record tar_entry =
  Name :: string
  Typeflag :: typeflag
  Size :: nat
  Payload :: bytes

datatype stream_end = Clean | Broken

datatype node = Dir | File bytes | Container string "tar_entry list" stream_end

type_synonym fs = "(fpath \<times> node) list"

datatype op =
    OpStat fpath | OpOpen fpath | OpCreate fpath | OpMkdirAll fpath | OpRename fpath
  | OpReadDir fpath | OpRemoveAll fpath | OpLstat fpath | OpRel fpath
  | OpFileInfoHeader fpath | OpWriteHeader fpath | OpCopy fpath
  | OpNewWriter fpath | OpNewReader fpath
  | OpCloseTar fpath | OpCloseCompressor fpath | OpCloseFile fpath

datatype error =
    EOF | ErrUnexpectedEOF | ErrNotExist fpath | ErrNotDir fpath | ErrIsDir fpath
  | ErrFault op | ErrDecode | ErrClosed
  | ErrUnsupportedFileFormat fpath | ErrUnsupportedFormat string
  | ErrFileNotFound string | ErrExpectedFile string string
  | ErrUnsupportedCompression string

text \<open>What the program cannot control:
  \<^item> \<open>fails\<close>: which calls fail;
  \<^item> \<open>cut\<close>: how many bytes get through when a copy to a path fails;
  \<^item> \<open>image\<close>: the bytes a container has on disk (the work of the compression
    libraries);
  \<^item> \<open>month_of\<close>: how an instant is printed as a month (\<^verbatim>\<open>Time.Format("2006-01")\<close>);
  \<^item> \<open>buffered\<close>: how many bytes of a member's payload the decoder of a container
    still holds in memory once the container file is closed;
  \<^item> \<open>lost\<close>: which paths a failing \<^verbatim>\<open>os.RemoveAll\<close> has removed before it gives up;
  \<^item> \<open>rank\<close>: the order in which a Go map yields its keys, as a rank of each key.\<close>

record world =
  fails :: "op \<Rightarrow> bool"
  cut :: "fpath \<Rightarrow> nat"
  image :: "string \<Rightarrow> tar_entry list \<Rightarrow> stream_end \<Rightarrow> bytes"
  month_of :: "int \<Rightarrow> string"
  buffered :: "fpath \<Rightarrow> string \<Rightarrow> nat"
  lost :: "fpath \<Rightarrow> bool"
  rank :: "string \<Rightarrow> nat"

definition lookup :: "fs \<Rightarrow> fpath \<Rightarrow> node option" where
  "lookup fsys p = map_of fsys p"

definition is_dir :: "fs \<Rightarrow> fpath \<Rightarrow> bool" where
  "is_dir fsys p = (lookup fsys p = Some Dir)"

definition contents :: "world \<Rightarrow> node \<Rightarrow> bytes" where
  "contents w n = (case n of Dir \<Rightarrow> [] | File b \<Rightarrow> b | Container fmt es fin \<Rightarrow> image w fmt es fin)"

text \<open>\<^verbatim>\<open>os.Open\<close>: succeeds on any existing file or directory.\<close>

definition os_Open :: "world \<Rightarrow> fs \<Rightarrow> fpath \<Rightarrow> error + node" where
  "os_Open w fsys p =
     (if fails w (OpOpen p) then Inl (ErrFault (OpOpen p))
      else case lookup fsys p of None \<Rightarrow> Inl (ErrNotExist p) | Some n \<Rightarrow> Inr n)"

section \<open>tarfs: index and fetch\<close>

record TarFS =
  path :: fpath
  indices :: "(string \<times> nat) list"
  sizes :: "(string \<times> nat) list"
  format :: string

text \<open>\<^verbatim>\<open>filepath.Ext\<close> on the last component: the suffix from the last dot on.\<close>

definition Ext :: "string \<Rightarrow> string" where
  "Ext s = (if CHR ''.'' \<in> set s
            then CHR ''.'' # rev (takeWhile (\<lambda>c. c \<noteq> CHR ''.'') (rev s)) else [])"

definition detectFormat :: "fpath \<Rightarrow> string" where
  "detectFormat p =
     (let e = (if p = [] then [] else Ext (last p)) in
      if e = ''.zst'' then ''zst''
      else if e = ''.br'' then ''br''
      else if e = ''.gz'' then ''gz''
      else if e = ''.bz2'' then ''bz2''
      else if e = ''.xz'' then ''xz''
      else [])"

text \<open>\<^verbatim>\<open>newTarReader\<close>: the decompressor for a format, over an open file.  The file
  decodes when it is a container of that format.  An empty file (what \<^verbatim>\<open>os.Create\<close>
  leaves) is an empty stream for the zstd reader, which ends cleanly where no frame
  starts; the other readers need a header.  (For some formats the library reports
  undecodable input at the first read and not at construction; both callers return
  the error either way.)\<close>

definition newTarReader ::
  "world \<Rightarrow> fpath \<Rightarrow> node \<Rightarrow> string \<Rightarrow> error + (tar_entry list \<times> stream_end)" where
  "newTarReader w p f fmt =
     (if fmt = ''gz'' \<or> fmt = ''bz2'' \<or> fmt = ''zst'' \<or> fmt = ''xz'' then
        (if fails w (OpNewReader p) then Inl (ErrFault (OpNewReader p))
         else case f of
           Container cfmt es fin \<Rightarrow> if cfmt = fmt then Inr (es, fin) else Inl ErrDecode
         | File b \<Rightarrow> if fmt = ''zst'' \<and> b = [] then Inr ([], Clean) else Inl ErrDecode
         | Dir \<Rightarrow> Inl (ErrIsDir p))
      else Inl (ErrUnsupportedFormat fmt))"

text \<open>The payload of an entry is complete when the stream holds all the bytes its
  header declares.  Moving past an entry (by \<^verbatim>\<open>io.CopyN\<close> to \<^verbatim>\<open>io.Discard\<close>, or
  by the next call of \<^verbatim>\<open>Next\<close>) fails when it is not.\<close>

definition complete :: "tar_entry \<Rightarrow> bool" where
  "complete hdr = (Size hdr \<le> length (Payload hdr))"

text \<open>The loop of \<^verbatim>\<open>NewTarFS\<close>, \<^verbatim>\<open>for i := 0; true; i++\<close>: \<open>i\<close> counts every
  entry, regular or not; only regular entries are recorded, a later one replacing
  an earlier one of the same name.\<close>

fun scan :: "nat \<Rightarrow> tar_entry list \<Rightarrow> stream_end \<Rightarrow> TarFS \<Rightarrow> error + TarFS" where
  "scan i [] fin t = (case fin of Clean \<Rightarrow> Inr t | Broken \<Rightarrow> Inl ErrUnexpectedEOF)"
| "scan i (hdr # rest) fin t =
     (if Typeflag hdr = TypeReg then
        (let t' = t\<lparr>indices := AList.update (Name hdr) i (indices t),
                    sizes := AList.update (Name hdr) (Size hdr) (sizes t)\<rparr>
         in if complete hdr then scan (i + 1) rest fin t' else Inl ErrUnexpectedEOF)
      else if complete hdr then scan (i + 1) rest fin t
      else Inl ErrUnexpectedEOF)"

definition NewTarFS :: "world \<Rightarrow> fs \<Rightarrow> fpath \<Rightarrow> error + TarFS" where
  "NewTarFS w fsys p =
     (let fmt = detectFormat p in
      if fmt = [] then Inl (ErrUnsupportedFileFormat p)
      else case os_Open w fsys p of
        Inl e \<Rightarrow> Inl e
      | Inr f \<Rightarrow>
          (case newTarReader w p f fmt of
             Inl e \<Rightarrow> Inl e
           | Inr (es, fin) \<Rightarrow> scan 0 es fin \<lparr>path = p, indices = [], sizes = [], format = fmt\<rparr>))"

text \<open>The loop of \<^verbatim>\<open>Get\<close>, \<^verbatim>\<open>for i := 0; i <= index; i++\<close>: \<open>seek n\<close> calls
  \<^verbatim>\<open>Next\<close> \<open>n + 1\<close> times and yields the last header read.  Each call after the
  first skips what is left of the previous payload.\<close>

fun seek :: "nat \<Rightarrow> tar_entry list \<Rightarrow> stream_end \<Rightarrow> error + tar_entry" where
  "seek n [] fin = (case fin of Clean \<Rightarrow> Inl EOF | Broken \<Rightarrow> Inl ErrUnexpectedEOF)"
| "seek 0 (hdr # rest) fin = Inr hdr"
| "seek (Suc n) (hdr # rest) fin =
     (if complete hdr then seek n rest fin else Inl ErrUnexpectedEOF)"

text \<open>The payload of an entry: at most \<open>Size\<close> bytes.\<close>

definition entry_bytes :: "tar_entry \<Rightarrow> bytes" where
  "entry_bytes hdr = take (Size hdr) (Payload hdr)"

text \<open>\<^verbatim>\<open>Get\<close> returns the tar reader positioned at the entry.  Its deferred calls
  (\<^verbatim>\<open>defer f.Close()\<close>, \<^verbatim>\<open>defer tr.Close()\<close>) run when it returns, before the
  caller reads: the reader is over a closed file.  It yields the bytes of the
  payload that the decoder had buffered, and then the error of reading a closed
  file.\<close>

record reader =
  at_entry :: tar_entry
  readable :: bytes
  read_error :: "error option"

definition closed_reader :: "world \<Rightarrow> fpath \<Rightarrow> string \<Rightarrow> tar_entry \<Rightarrow> reader" where
  "closed_reader w p member hdr =
     \<lparr>at_entry = hdr,
      readable = take (buffered w p member) (entry_bytes hdr),
      read_error =
        (if buffered w p member < length (entry_bytes hdr) then Some ErrClosed
         else if complete hdr then None else Some ErrUnexpectedEOF)\<rparr>"

definition Get :: "world \<Rightarrow> fs \<Rightarrow> TarFS \<Rightarrow> string \<Rightarrow> error + reader" where
  "Get w fsys t member =
     (case map_of (indices t) member of
        None \<Rightarrow> Inl (ErrFileNotFound member)
      | Some index \<Rightarrow>
          (case os_Open w fsys (path t) of
             Inl e \<Rightarrow> Inl e
           | Inr f \<Rightarrow>
               (case newTarReader w (path t) f (format t) of
                  Inl e \<Rightarrow> Inl e
                | Inr (es, fin) \<Rightarrow>
                    (case seek index es fin of
                       Inl e \<Rightarrow> Inl e
                     | Inr hdr \<Rightarrow>
                         if Name hdr = member then Inr (closed_reader w (path t) member hdr)
                         else Inl (ErrExpectedFile member (Name hdr))))))"

text \<open>\<^verbatim>\<open>EntryPaths\<close> collects the keys of a Go map: every key once, in an order that
  the program does not control.\<close>

definition EntryPaths :: "world \<Rightarrow> TarFS \<Rightarrow> string list" where
  "EntryPaths w t = sort_key (rank w) (map fst (indices t))"

section \<open>The operating system calls the program makes\<close>

text \<open>A path is blocked when a file stands where one of its parent directories
  should be.\<close>

definition is_file :: "fs \<Rightarrow> fpath \<Rightarrow> bool" where
  "is_file fsys p = (case lookup fsys p of None \<Rightarrow> False | Some Dir \<Rightarrow> False | Some n \<Rightarrow> True)"

definition blocked :: "fs \<Rightarrow> fpath \<Rightarrow> bool" where
  "blocked fsys p = list_ex (is_file fsys) (butlast (prefixes p))"

text \<open>\<^verbatim>\<open>os.Stat\<close>, as far as the program looks at it: \<open>None\<close> is a nil error.  A
  missing path is reported as not existing, unless it is blocked: that is a
  different error (\<^verbatim>\<open>ENOTDIR\<close>).\<close>

definition os_Stat :: "world \<Rightarrow> fs \<Rightarrow> fpath \<Rightarrow> error option" where
  "os_Stat w fsys p =
     (if fails w (OpStat p) then Some (ErrFault (OpStat p))
      else case lookup fsys p of
        Some n \<Rightarrow> None
      | None \<Rightarrow> if blocked fsys p then Some (ErrNotDir p) else Some (ErrNotExist p))"

definition IsNotExist :: "error option \<Rightarrow> bool" where
  "IsNotExist err = (case err of Some (ErrNotExist p) \<Rightarrow> True | _ \<Rightarrow> False)"

text \<open>\<^verbatim>\<open>os.Create\<close>: an empty file, replacing a file of that name; the parent
  directory must exist.\<close>

definition os_Create :: "world \<Rightarrow> fs \<Rightarrow> fpath \<Rightarrow> error + fs" where
  "os_Create w fsys p =
     (if fails w (OpCreate p) then Inl (ErrFault (OpCreate p))
      else if is_dir fsys p then Inl (ErrIsDir p)
      else if is_dir fsys (butlast p) then Inr (AList.update p (File []) fsys)
      else Inl (ErrNotExist p))"

text \<open>\<^verbatim>\<open>os.MkdirAll\<close>: the directory and every missing parent; a file in the way is
  an error.\<close>

fun mkdirs :: "fs \<Rightarrow> fpath list \<Rightarrow> error + fs" where
  "mkdirs fsys [] = Inr fsys"
| "mkdirs fsys (d # ds) =
     (case lookup fsys d of
        None \<Rightarrow> mkdirs (AList.update d Dir fsys) ds
      | Some Dir \<Rightarrow> mkdirs fsys ds
      | Some n \<Rightarrow> Inl (ErrNotDir d))"

definition os_MkdirAll :: "world \<Rightarrow> fs \<Rightarrow> fpath \<Rightarrow> error + fs" where
  "os_MkdirAll w fsys p =
     (if fails w (OpMkdirAll p) then Inl (ErrFault (OpMkdirAll p))
      else mkdirs fsys (tl (prefixes p)))"

text \<open>\<^verbatim>\<open>os.Rename\<close> of a file (the program renames only the temporary file it has
  just created): the node moves, replacing a file at the new path.\<close>

definition os_Rename :: "world \<Rightarrow> fs \<Rightarrow> fpath \<Rightarrow> fpath \<Rightarrow> error + fs" where
  "os_Rename w fsys old new =
     (if fails w (OpRename old) then Inl (ErrFault (OpRename old))
      else case lookup fsys old of
        None \<Rightarrow> Inl (ErrNotExist old)
      | Some n \<Rightarrow>
          if is_dir fsys new then Inl (ErrIsDir new)
          else Inr (AList.update new n (AList.delete old fsys)))"

text \<open>\<^verbatim>\<open>os.ReadDir\<close>: name and \<^verbatim>\<open>IsDir()\<close> of every child.\<close>

definition children :: "fs \<Rightarrow> fpath \<Rightarrow> (string \<times> bool) list" where
  "children fsys p =
     map (\<lambda>(q, n). (last q, n = Dir)) (filter (\<lambda>(q, n). q \<noteq> [] \<and> butlast q = p) fsys)"

definition os_ReadDir :: "world \<Rightarrow> fs \<Rightarrow> fpath \<Rightarrow> error + (string \<times> bool) list" where
  "os_ReadDir w fsys p =
     (if fails w (OpReadDir p) then Inl (ErrFault (OpReadDir p))
      else case lookup fsys p of
        None \<Rightarrow> Inl (ErrNotExist p)
      | Some Dir \<Rightarrow> Inr (children fsys p)
      | Some n \<Rightarrow> Inl (ErrNotDir p))"

text \<open>\<^verbatim>\<open>os.RemoveAll\<close>: the path and everything below it; no error when there is
  nothing at the path.  A failing removal removes what it can and returns the
  first error: the path itself stays, and of what is below it the part that was
  \<open>lost\<close> before the error is gone.\<close>

definition below :: "fpath \<Rightarrow> fpath \<times> node \<Rightarrow> bool" where
  "below p x = prefix p (fst x)"

definition removed_before_error :: "world \<Rightarrow> fpath \<Rightarrow> fpath \<times> node \<Rightarrow> bool" where
  "removed_before_error w p x = (below p x \<and> fst x \<noteq> p \<and> lost w (fst x))"

definition os_RemoveAll :: "world \<Rightarrow> fs \<Rightarrow> fpath \<Rightarrow> error option \<times> fs" where
  "os_RemoveAll w fsys p =
     (if filter (below p) fsys = [] then (None, fsys)
      else if fails w (OpRemoveAll p)
        then (Some (ErrFault (OpRemoveAll p)), filter (\<lambda>x. \<not> removed_before_error w p x) fsys)
      else (None, filter (\<lambda>x. \<not> below p x) fsys))"

section \<open>tarfs: rotation\<close>

text \<open>A Go function returns or panics.  \<open>Returns None\<close> is a nil error.\<close>

datatype 'a outcome = Returns 'a | Panics string

fun join_slash :: "string list \<Rightarrow> string" where
  "join_slash [] = []"
| "join_slash [x] = x"
| "join_slash (x # y # ys) = x @ ''/'' @ join_slash (y # ys)"

text \<open>The callback of \<^verbatim>\<open>filepath.Walk\<close> in \<^verbatim>\<open>CompressDir\<close>, for one visited path.
  \<open>tw\<close> is what has been written to the tar writer so far.\<close>

definition walk_fn ::
  "world \<Rightarrow> fpath \<Rightarrow> tar_entry list \<Rightarrow> fpath \<times> node \<Rightarrow> error option \<times> tar_entry list" where
  "walk_fn w dataDir tw x =
     (let p = fst x; info = snd x in
      if fails w (OpLstat p) then (Some (ErrFault (OpLstat p)), tw)
      else if info = Dir then (None, tw)
      else if fails w (OpRel p) then (Some (ErrFault (OpRel p)), tw)
      else if fails w (OpFileInfoHeader p) then (Some (ErrFault (OpFileInfoHeader p)), tw)
      else if fails w (OpWriteHeader p) then (Some (ErrFault (OpWriteHeader p)), tw)
      else
        (let relPath = join_slash (drop (length dataDir) p);
             hdr = \<lparr>Name = relPath, Typeflag = TypeReg, Size = length (contents w info),
                    Payload = []\<rparr>
         in if fails w (OpOpen p) then (Some (ErrFault (OpOpen p)), tw @ [hdr])
            else if fails w (OpCopy p)
              then (Some (ErrFault (OpCopy p)),
                    tw @ [hdr\<lparr>Payload := take (cut w p) (contents w info)\<rparr>])
            else (None, tw @ [hdr\<lparr>Payload := contents w info\<rparr>])))"

fun walk_all ::
  "world \<Rightarrow> fpath \<Rightarrow> (fpath \<times> node) list \<Rightarrow> tar_entry list \<Rightarrow> error option \<times> tar_entry list" where
  "walk_all w dataDir [] tw = (None, tw)"
| "walk_all w dataDir (x # xs) tw =
     (case walk_fn w dataDir tw x of
        (Some e, tw') \<Rightarrow> (Some e, tw')
      | (None, tw') \<Rightarrow> walk_all w dataDir xs tw')"

definition Walk ::
  "world \<Rightarrow> fs \<Rightarrow> fpath \<Rightarrow> fpath \<Rightarrow> error option \<times> tar_entry list" where
  "Walk w fsys dataDir root =
     (case lookup fsys root of
        None \<Rightarrow> (Some (ErrNotExist root), [])
      | Some n \<Rightarrow> walk_all w dataDir (filter (below root) fsys) [])"

text \<open>The deferred closes of \<^verbatim>\<open>CompressDir\<close>: tar writer, compressor, file, in
  that order; every error is dropped (\<^verbatim>\<open>_ = tw.Close()\<close>).  A failed close
  leaves a stream that does not end properly.\<close>

definition deferred_closes :: "world \<Rightarrow> fpath \<Rightarrow> stream_end" where
  "deferred_closes w tarPath =
     (if fails w (OpCloseTar tarPath) \<or> fails w (OpCloseCompressor tarPath)
         \<or> fails w (OpCloseFile tarPath)
      then Broken else Clean)"

text \<open>The part of \<^verbatim>\<open>CompressDir\<close> after a writer was made (the cases \<^verbatim>\<open>gz\<close>,
  \<^verbatim>\<open>zst\<close>, \<^verbatim>\<open>xz\<close>): walk, then return the walk's error or nil; the deferred closes
  run on either way.\<close>

definition write_archive ::
  "world \<Rightarrow> fs \<Rightarrow> fpath \<Rightarrow> string \<Rightarrow> string \<Rightarrow> fpath \<Rightarrow> error option outcome \<times> fs" where
  "write_archive w fsys dataDir date fmt tarPath =
     (if fails w (OpNewWriter tarPath) then (Returns (Some (ErrFault (OpNewWriter tarPath))), fsys)
      else case Walk w fsys dataDir (dataDir @ [date]) of
        (err, tw) \<Rightarrow>
          (Returns err,
           AList.update tarPath (Container fmt tw (deferred_closes w tarPath)) fsys))"

definition CompressDir ::
  "world \<Rightarrow> fs \<Rightarrow> fpath \<Rightarrow> string \<Rightarrow> string \<Rightarrow> error option outcome \<times> fs" where
  "CompressDir w fsys dataDir date fmt =
     (let tarPath = dataDir @ [date @ ''.tar.'' @ fmt] in
      if IsNotExist (os_Stat w fsys tarPath) then
        (case os_Create w fsys tarPath of
           Inl e \<Rightarrow> (Returns (Some e), fsys)
         | Inr fsys1 \<Rightarrow>
             if fmt = ''gz'' then write_archive w fsys1 dataDir date fmt tarPath
             else if fmt = ''bz2'' then (Panics ''bzip2 has no writer'', fsys1)
             else if fmt = ''zst'' then write_archive w fsys1 dataDir date fmt tarPath
             else if fmt = ''xz'' then write_archive w fsys1 dataDir date fmt tarPath
             else (Panics ''nil pointer dereference'', fsys1))
      else (Returns None, fsys))"

definition CompressAndRemove ::
  "world \<Rightarrow> fs \<Rightarrow> fpath \<Rightarrow> string \<Rightarrow> string \<Rightarrow> error option outcome \<times> fs" where
  "CompressAndRemove w fsys dataDir date fmt =
     (case CompressDir w fsys dataDir date fmt of
        (Returns None, fsys') \<Rightarrow>
          (case os_RemoveAll w fsys' (dataDir @ [date]) of (err, fsys'') \<Rightarrow> (Returns err, fsys''))
      | (Returns (Some e), fsys') \<Rightarrow> (Returns (Some e), fsys')
      | (Panics m, fsys') \<Rightarrow> (Panics m, fsys'))"

section \<open>Calendar time\<close>

text \<open>A \<^verbatim>\<open>time.Time\<close> in UTC, as its calendar fields; \<open>Nanos\<close> is the time of day
  in nanoseconds.  On such values the order of instants is the lexicographic order
  of the fields.\<close>

record time =
  Year :: int
  Month :: int
  Day :: int
  Nanos :: int

definition isLeap :: "int \<Rightarrow> bool" where
  "isLeap y = (y mod 4 = 0 \<and> (y mod 100 \<noteq> 0 \<or> y mod 400 = 0))"

definition daysIn :: "int \<Rightarrow> int \<Rightarrow> int" where
  "daysIn m y =
     (if m = 2 then (if isLeap y then 29 else 28)
      else if m = 4 \<or> m = 6 \<or> m = 9 \<or> m = 11 then 30 else 31)"

definition valid_time :: "time \<Rightarrow> bool" where
  "valid_time t =
     (1 \<le> Month t \<and> Month t \<le> 12 \<and> 1 \<le> Day t \<and> Day t \<le> daysIn (Month t) (Year t)
      \<and> 0 \<le> Nanos t \<and> Nanos t < 86400000000000)"

text \<open>\<^verbatim>\<open>time.Date\<close> normalises its arguments: a month outside 1..12 carries into the
  year, a day past the end of the month carries into the next month.  The program
  only ever passes day 1 or adds one day to a valid date, so one carry is enough.\<close>

definition Date :: "int \<Rightarrow> int \<Rightarrow> int \<Rightarrow> int \<Rightarrow> time" where
  "Date y m d ns =
     (let y1 = y + (m - 1) div 12; m1 = (m - 1) mod 12 + 1 in
      if d \<le> daysIn m1 y1 then \<lparr>Year = y1, Month = m1, Day = d, Nanos = ns\<rparr>
      else if m1 = 12 then \<lparr>Year = y1 + 1, Month = 1, Day = d - daysIn m1 y1, Nanos = ns\<rparr>
      else \<lparr>Year = y1, Month = m1 + 1, Day = d - daysIn m1 y1, Nanos = ns\<rparr>)"

definition AddDate :: "time \<Rightarrow> int \<Rightarrow> int \<Rightarrow> int \<Rightarrow> time" where
  "AddDate t years months days = Date (Year t + years) (Month t + months) (Day t + days) (Nanos t)"

definition Before :: "time \<Rightarrow> time \<Rightarrow> bool" where
  "Before t u =
     (Year t < Year u \<or> (Year t = Year u \<and>
       (Month t < Month u \<or> (Month t = Month u \<and>
         (Day t < Day u \<or> (Day t = Day u \<and> Nanos t < Nanos u))))))"

definition After :: "time \<Rightarrow> time \<Rightarrow> bool" where
  "After t u = Before u t"

definition is_digit :: "char \<Rightarrow> bool" where
  "is_digit c = (CHR ''0'' \<le> c \<and> c \<le> CHR ''9'')"

definition digit :: "char \<Rightarrow> int" where
  "digit c = int (of_char c) - 48"

text \<open>\<^verbatim>\<open>time.Parse("2006-01", s)\<close>: four digits, a dash, two digits that name a month
  from 01 to 12, and nothing more.  The result is the first instant of that month.\<close>

fun parse_month :: "string \<Rightarrow> time option" where
  "parse_month [y1, y2, y3, y4, dash, m1, m2] =
     (if is_digit y1 \<and> is_digit y2 \<and> is_digit y3 \<and> is_digit y4 \<and> dash = CHR ''-''
         \<and> is_digit m1 \<and> is_digit m2
         \<and> 1 \<le> 10 * digit m1 + digit m2 \<and> 10 * digit m1 + digit m2 \<le> 12
      then Some (Date (1000 * digit y1 + 100 * digit y2 + 10 * digit y3 + digit y4)
                   (10 * digit m1 + digit m2) 1 0)
      else None)"
| "parse_month s = None"

section \<open>The server\<close>

record Server =
  auth :: "string \<Rightarrow> string \<Rightarrow> bool"
  storage :: fpath
  compress :: string
  tarFS :: "string \<rightharpoonup> TarFS"

definition New :: "(string \<Rightarrow> string \<Rightarrow> bool) \<Rightarrow> fpath \<Rightarrow> string \<Rightarrow> error + Server" where
  "New verify dir c =
     (if c \<noteq> ''zst'' \<and> c \<noteq> ''gz'' \<and> c \<noteq> ''xz'' then Inl (ErrUnsupportedCompression c)
      else Inr \<lparr>auth = verify, storage = dir, compress = c, tarFS = Map.empty\<rparr>)"

text \<open>A response: the status and what the body carries.  For an error body only
  the code is kept.\<close>

datatype body = JSONError string | JSONMessage | JSONResults "string list" | Stream bytes

datatype response = Response nat body

text \<open>\<^verbatim>\<open>filepath.Join\<close> joins its elements with separators and cleans the result:
  empty components and \<^verbatim>\<open>.\<close> are dropped, and \<^verbatim>\<open>..\<close> removes the component before
  it.  Below the root, \<^verbatim>\<open>..\<close> stays at the root; in a relative path, \<^verbatim>\<open>..\<close> that has
  nothing to remove is kept.\<close>

fun split_slash :: "string \<Rightarrow> string list" where
  "split_slash [] = [[]]"
| "split_slash (c # cs) =
     (if c = CHR ''/'' then [] # split_slash cs
      else case split_slash cs of [] \<Rightarrow> [[c]] | x # xs \<Rightarrow> (c # x) # xs)"

definition clean_step :: "bool \<Rightarrow> string list \<Rightarrow> string \<Rightarrow> string list" where
  "clean_step rooted acc c =
     (if c = [] \<or> c = ''.'' then acc
      else if c = ''..'' then
        (if acc = [] then (if rooted then [] else [''..''])
         else if last acc = ''..'' then acc @ [''..'']
         else butlast acc)
      else acc @ [c])"

text \<open>\<open>Join\<close>: elements joined to a cleaned absolute path.  \<open>Join_rel\<close>: elements
  joined to a relative path, as the string \<^verbatim>\<open>filepath.Join\<close> returns.\<close>

definition Join :: "fpath \<Rightarrow> string list \<Rightarrow> fpath" where
  "Join base elems = foldl (clean_step True) base (concat (map split_slash elems))"

definition Join_rel :: "string list \<Rightarrow> string" where
  "Join_rel elems =
     (let cs = foldl (clean_step False) [] (concat (map split_slash elems)) in
      if concat elems = [] then [] else if cs = [] then ''.'' else join_slash cs)"

text \<open>A path as a string, with a suffix appended (\<^verbatim>\<open>storagePath + ".tmp"\<close>).\<close>

definition add_suffix :: "fpath \<Rightarrow> string \<Rightarrow> fpath" where
  "add_suffix p suf = (if p = [] then [suf] else butlast p @ [last p @ suf])"

record upload =
  BasicAuth :: "(string \<times> string) option"
  X_File_Date :: string
  X_File_Name :: string
  Body :: bytes

text \<open>\<^verbatim>\<open>UploadLog\<close>.  \<open>now\<close> is \<^verbatim>\<open>time.Now().UTC()\<close>.  The copy of the body into
  the temporary file can stop part way; what got through stays in that file.  The
  file name is the raw header value, joined to the month directory.\<close>

definition UploadLog :: "world \<Rightarrow> Server \<Rightarrow> time \<Rightarrow> upload \<Rightarrow> fs \<Rightarrow> response \<times> fs" where
  "UploadLog w s now r fsys =
     (case BasicAuth r of
        None \<Rightarrow> (Response 401 (JSONError ''unauthorized''), fsys)
      | Some (username, password) \<Rightarrow>
          if auth s username password then
            (let date = X_File_Date r; name = X_File_Name r in
             if date = [] \<or> name = [] then (Response 400 (JSONError ''missing_headers''), fsys)
             else case parse_month date of
               None \<Rightarrow> (Response 400 (JSONError ''invalid_date''), fsys)
             | Some dateTime \<Rightarrow>
                 (let firstOfCurrentMonth = Date (Year now) (Month now) 1 0;
                      firstOfLastMonth = AddDate firstOfCurrentMonth 0 (- 1) 0;
                      tomorrow = AddDate now 0 0 1
                  in if Before dateTime firstOfLastMonth \<or> After dateTime tomorrow
                     then (Response 400 (JSONError ''date_out_of_range''), fsys)
                     else
                       (let dataDir = Join (storage s) [username, date] in
                        case os_MkdirAll w fsys dataDir of
                          Inl e \<Rightarrow> (Response 500 (JSONError ''server_error''), fsys)
                        | Inr fsys1 \<Rightarrow>
                            (let storagePath = Join dataDir [name];
                                 tmpPath = add_suffix storagePath ''.tmp'' 
                             in case os_Create w fsys1 tmpPath of
                               Inl e \<Rightarrow> (Response 500 (JSONError ''server_error''), fsys1)
                             | Inr fsys2 \<Rightarrow>
                                 if fails w (OpCopy tmpPath)
                                 then (Response 500 (JSONError ''write_failed''),
                                       AList.update tmpPath (File (take (cut w tmpPath) (Body r))) fsys2)
                                 else
                                   (let fsys3 = AList.update tmpPath (File (Body r)) fsys2 in
                                    case os_Rename w fsys3 tmpPath storagePath of
                                      Inl e \<Rightarrow> (Response 500 (JSONError ''server_error''), fsys3)
                                    | Inr fsys4 \<Rightarrow> (Response 201 JSONMessage, fsys4))))))
          else (Response 401 (JSONError ''unauthorized''), fsys))"

definition TrimPrefix :: "string \<Rightarrow> string \<Rightarrow> string" where
  "TrimPrefix s pre = (if prefix pre s then drop (length pre) s else s)"

text \<open>The archive lookup that \<^verbatim>\<open>ListFiles\<close> and \<^verbatim>\<open>GetFile\<close> share word for word:
  read the cache under the key \<^verbatim>\<open>date\<close>; on a miss index the container of this
  user and store the index under \<^verbatim>\<open>date\<close>.\<close>

definition cached_tarfs ::
  "world \<Rightarrow> Server \<Rightarrow> fs \<Rightarrow> string \<Rightarrow> string \<Rightarrow> (error + TarFS) \<times> Server" where
  "cached_tarfs w s fsys user date =
     (case tarFS s date of
        Some tfs \<Rightarrow> (Inr tfs, s)
      | None \<Rightarrow>
          (let tarPath = Join (storage s) [user, date @ ''.tar.'' @ compress s] in
           case NewTarFS w fsys tarPath of
             Inl e \<Rightarrow> (Inl e, s)
           | Inr tfs \<Rightarrow> (Inr tfs, s\<lparr>tarFS := (tarFS s)(date \<mapsto> tfs)\<rparr>)))"

definition ListFiles ::
  "world \<Rightarrow> Server \<Rightarrow> (string \<times> string) option \<Rightarrow> string \<Rightarrow> string \<Rightarrow> fs \<Rightarrow> response \<times> Server" where
  "ListFiles w s creds user date fsys =
     (case creds of
        None \<Rightarrow> (Response 401 (JSONError ''unauthorized''), s)
      | Some (username, password) \<Rightarrow>
          if auth s username password then
            (if username \<noteq> user then (Response 403 (JSONError ''forbidden''), s)
             else
               (let dateDir = Join (storage s) [user, date] in
                case os_ReadDir w fsys dateDir of
                  Inr entries \<Rightarrow> (Response 201 (JSONResults (map fst entries)), s)
                | Inl err \<Rightarrow>
                    (case cached_tarfs w s fsys user date of
                       (Inl e, s') \<Rightarrow> (Response 404 (JSONError ''file_not_found''), s')
                     | (Inr tfs, s') \<Rightarrow>
                         (Response 201
                            (JSONResults (map (\<lambda>p. TrimPrefix p (date @ ''/'')) (EntryPaths w tfs))),
                          s'))))
          else (Response 401 (JSONError ''unauthorized''), s))"

definition GetFile ::
  "world \<Rightarrow> Server \<Rightarrow> (string \<times> string) option \<Rightarrow> string \<Rightarrow> string \<Rightarrow> string \<Rightarrow> fs
     \<Rightarrow> response \<times> Server" where
  "GetFile w s creds user date name fsys =
     (case creds of
        None \<Rightarrow> (Response 401 (JSONError ''unauthorized''), s)
      | Some (username, password) \<Rightarrow>
          if auth s username password then
            (if username \<noteq> user then (Response 403 (JSONError ''forbidden''), s)
             else if parse_month date = None then (Response 400 (JSONError ''invalid_date''), s)
             else
               (let filePath = Join (storage s) [user, date, name] in
                case os_Open w fsys filePath of
                  Inr f \<Rightarrow> (Response 200 (Stream (contents w f)), s)
                | Inl err \<Rightarrow>
                    (case cached_tarfs w s fsys user date of
                       (Inl e, s') \<Rightarrow> (Response 404 (JSONError ''file_not_found''), s')
                     | (Inr tfs, s') \<Rightarrow>
                         (case Get w fsys tfs (Join_rel [date, name]) of
                            Inl e \<Rightarrow> (Response 404 (JSONError ''file_not_found''), s')
                          | Inr f \<Rightarrow> (Response 200 (Stream (readable f)), s')))))
          else (Response 401 (JSONError ''unauthorized''), s))"

text \<open>\<^verbatim>\<open>CompressAll\<close>: the inner loop over the entries of one user's directory, and
  the outer loop over the users.  \<open>tarballs\<close> is the list built so far.\<close>

fun compress_dates ::
  "world \<Rightarrow> string \<Rightarrow> fpath \<Rightarrow> string \<Rightarrow> (string \<times> bool) list \<Rightarrow> fs \<Rightarrow> fpath list
     \<Rightarrow> (error + fpath list) outcome \<times> fs" where
  "compress_dates w c userPath thenName [] fsys tarballs = (Returns (Inr tarballs), fsys)"
| "compress_dates w c userPath thenName (dateDir # rest) fsys tarballs =
     (let dateName = fst dateDir in
      if \<not> snd dateDir then compress_dates w c userPath thenName rest fsys tarballs
      else if parse_month dateName = None
        then compress_dates w c userPath thenName rest fsys tarballs
      else if dateName \<ge> thenName
        then compress_dates w c userPath thenName rest fsys tarballs
      else
        (case CompressAndRemove w fsys userPath dateName c of
           (Returns (Some err), fsys') \<Rightarrow> (Returns (Inl err), fsys')
         | (Panics m, fsys') \<Rightarrow> (Panics m, fsys')
         | (Returns None, fsys') \<Rightarrow>
             compress_dates w c userPath thenName rest fsys'
               (tarballs @ [userPath @ [dateName @ ''.tar.'' @ c]])))"

fun compress_users ::
  "world \<Rightarrow> Server \<Rightarrow> string \<Rightarrow> (string \<times> bool) list \<Rightarrow> fs \<Rightarrow> fpath list
     \<Rightarrow> (error + fpath list) outcome \<times> fs" where
  "compress_users w s thenName [] fsys tarballs = (Returns (Inr tarballs), fsys)"
| "compress_users w s thenName (userDir # rest) fsys tarballs =
     (if \<not> snd userDir then compress_users w s thenName rest fsys tarballs
      else
        (let userPath = storage s @ [fst userDir] in
         case os_ReadDir w fsys userPath of
           Inl err \<Rightarrow> compress_users w s thenName rest fsys tarballs
         | Inr dateDirs \<Rightarrow>
             (case compress_dates w (compress s) userPath thenName dateDirs fsys tarballs of
                (Returns (Inr tarballs'), fsys') \<Rightarrow>
                  compress_users w s thenName rest fsys' tarballs'
              | (Returns (Inl err), fsys') \<Rightarrow> (Returns (Inl err), fsys')
              | (Panics m, fsys') \<Rightarrow> (Panics m, fsys'))))"

text \<open>\<open>now\<close> and \<open>stale\<close> are an instant and a duration, in nanoseconds.\<close>

definition CompressAll ::
  "world \<Rightarrow> Server \<Rightarrow> int \<Rightarrow> int \<Rightarrow> fs \<Rightarrow> (error + fpath list) outcome \<times> fs" where
  "CompressAll w s now stale fsys =
     (let thenName = month_of w (now - stale) in
      case os_ReadDir w fsys (storage s) of
        Inl err \<Rightarrow> (Returns (Inl err), fsys)
      | Inr userDirs \<Rightarrow> compress_users w s thenName userDirs fsys [])"

section \<open>Notions used to state the properties\<close>

text \<open>A world in which nothing fails; a decoder holds 4096 bytes of payload.\<close>

definition quiet :: world where
  "quiet = \<lparr>fails = (\<lambda>x. False), cut = (\<lambda>p. 0), image = (\<lambda>fmt es fin. []),
     month_of = (\<lambda>i. []), buffered = (\<lambda>p n. 4096), lost = (\<lambda>p. False), rank = (\<lambda>n. 0)\<rparr>"

text \<open>A world in which exactly the listed calls fail, a failing copy letting
  \<open>n\<close> bytes through, and every instant printed as the month \<open>m\<close>.\<close>

definition failing :: "op list \<Rightarrow> nat \<Rightarrow> string \<Rightarrow> world" where
  "failing ops n m = \<lparr>fails = (\<lambda>x. x \<in> set ops), cut = (\<lambda>p. n), image = (\<lambda>fmt es fin. []),
     month_of = (\<lambda>i. m), buffered = (\<lambda>p n. 4096), lost = (\<lambda>p. False), rank = (\<lambda>n. 0)\<rparr>"

definition regular_named :: "string \<Rightarrow> tar_entry \<Rightarrow> bool" where
  "regular_named n hdr = (Typeflag hdr = TypeReg \<and> Name hdr = n)"

text \<open>The position of the last regular entry of a name, counted among all entries.\<close>

fun last_reg :: "tar_entry list \<Rightarrow> string \<Rightarrow> nat option" where
  "last_reg [] n = None"
| "last_reg (hdr # rest) n =
     (case last_reg rest n of
        Some k \<Rightarrow> Some (Suc k)
      | None \<Rightarrow> if regular_named n hdr then Some 0 else None)"









text \<open>One owner with one live month holding one file.\<close>

definition rot_fs :: fs where
  "rot_fs =
     [([''s''], Dir), ([''s'', ''alice''], Dir), ([''s'', ''alice'', ''2025-01''], Dir),
      ([''s'', ''alice'', ''2025-01'', ''a.log''], File ''hello'')]"

definition rot_entries :: "tar_entry list" where
  "rot_entries = [\<lparr>Name = ''2025-01/a.log'', Typeflag = TypeReg, Size = 5, Payload = ''hello''\<rparr>]"

text \<open>The same tree after a rotation to \<^verbatim>\<open>gz\<close>, with a container that ends
  properly or not.\<close>

definition rotated_fs :: "stream_end \<Rightarrow> fs" where
  "rotated_fs fin =
     [([''s''], Dir), ([''s'', ''alice''], Dir),
      ([''s'', ''alice'', ''2025-01.tar.gz''], Container ''gz'' rot_entries fin)]"

text \<open>The tree \<open>rot_fs\<close> after a rotation to \<^verbatim>\<open>gz\<close> in which opening \<^verbatim>\<open>a.log\<close>
  failed: the header was written, the payload was not; and that tree without the
  live month.\<close>

definition partial_entries :: "tar_entry list" where
  "partial_entries = [\<lparr>Name = ''2025-01/a.log'', Typeflag = TypeReg, Size = 5, Payload = []\<rparr>]"

definition partial_fs :: fs where
  "partial_fs =
     [([''s''], Dir), ([''s'', ''alice''], Dir), ([''s'', ''alice'', ''2025-01''], Dir),
      ([''s'', ''alice'', ''2025-01'', ''a.log''], File ''hello''),
      ([''s'', ''alice'', ''2025-01.tar.gz''], Container ''gz'' partial_entries Clean)]"

definition emptied_fs :: fs where
  "emptied_fs =
     [([''s''], Dir), ([''s'', ''alice''], Dir),
      ([''s'', ''alice'', ''2025-01.tar.gz''], Container ''gz'' partial_entries Clean)]"

text \<open>Two owners with live months that are all older than \<^verbatim>\<open>2025-06\<close>.\<close>

definition sweep_fs :: fs where
  "sweep_fs =
     [([''s''], Dir),
      ([''s'', ''alice''], Dir),
      ([''s'', ''alice'', ''2025-01''], Dir),
      ([''s'', ''alice'', ''2025-01'', ''a.log''], File ''one''),
      ([''s'', ''alice'', ''2025-02''], Dir),
      ([''s'', ''alice'', ''2025-02'', ''b.log''], File ''two''),
      ([''s'', ''bob''], Dir),
      ([''s'', ''bob'', ''2025-01''], Dir),
      ([''s'', ''bob'', ''2025-01'', ''c.log''], File ''three'')]"

text \<open>A server over the storage root \<^verbatim>\<open>s\<close> that writes \<^verbatim>\<open>zst\<close> containers, with a
  cold cache; every user has the password \<^verbatim>\<open>pw\<close>.\<close>

definition srv :: Server where
  "srv = \<lparr>auth = (\<lambda>u p. p = ''pw''), storage = [''s''], compress = ''zst'', tarFS = Map.empty\<rparr>"

text \<open>The world of a sweep in which creating the container of alice's first
  month fails, and nothing else does.\<close>

definition sweep_world :: world where
  "sweep_world = failing [OpCreate [''s'', ''alice'', ''2025-01.tar.zst'']] 0 ''2025-06''"

text \<open>Three owners with live months older than \<^verbatim>\<open>2025-06\<close>; a world in which
  creating the container of bob's second month fails; the tree after alice's
  month has been rotated, and after bob's first month has been rotated too.\<close>

definition long_fs :: fs where
  "long_fs =
     [([''s''], Dir),
      ([''s'', ''alice''], Dir),
      ([''s'', ''alice'', ''2025-01''], Dir),
      ([''s'', ''alice'', ''2025-01'', ''a.log''], File ''one''),
      ([''s'', ''bob''], Dir),
      ([''s'', ''bob'', ''2025-01''], Dir),
      ([''s'', ''bob'', ''2025-01'', ''b.log''], File ''two''),
      ([''s'', ''bob'', ''2025-02''], Dir),
      ([''s'', ''bob'', ''2025-02'', ''c.log''], File ''three''),
      ([''s'', ''bob'', ''2025-03''], Dir),
      ([''s'', ''bob'', ''2025-03'', ''d.log''], File ''four''),
      ([''s'', ''carol''], Dir),
      ([''s'', ''carol'', ''2025-01''], Dir),
      ([''s'', ''carol'', ''2025-01'', ''e.log''], File ''five'')]"

definition long_world :: world where
  "long_world = failing [OpCreate [''s'', ''bob'', ''2025-02.tar.zst'']] 0 ''2025-06''"

definition long_fs_alice :: fs where
  "long_fs_alice =
     [([''s''], Dir),
      ([''s'', ''alice''], Dir),
      ([''s'', ''bob''], Dir),
      ([''s'', ''bob'', ''2025-01''], Dir),
      ([''s'', ''bob'', ''2025-01'', ''b.log''], File ''two''),
      ([''s'', ''bob'', ''2025-02''], Dir),
      ([''s'', ''bob'', ''2025-02'', ''c.log''], File ''three''),
      ([''s'', ''bob'', ''2025-03''], Dir),
      ([''s'', ''bob'', ''2025-03'', ''d.log''], File ''four''),
      ([''s'', ''carol''], Dir),
      ([''s'', ''carol'', ''2025-01''], Dir),
      ([''s'', ''carol'', ''2025-01'', ''e.log''], File ''five''),
      ([''s'', ''alice'', ''2025-01.tar.zst''],
         Container ''zst''
           [\<lparr>Name = ''2025-01/a.log'', Typeflag = TypeReg, Size = 3, Payload = ''one''\<rparr>] Clean)]"

definition long_fs_bob :: fs where
  "long_fs_bob =
     [([''s''], Dir),
      ([''s'', ''alice''], Dir),
      ([''s'', ''bob''], Dir),
      ([''s'', ''bob'', ''2025-02''], Dir),
      ([''s'', ''bob'', ''2025-02'', ''c.log''], File ''three''),
      ([''s'', ''bob'', ''2025-03''], Dir),
      ([''s'', ''bob'', ''2025-03'', ''d.log''], File ''four''),
      ([''s'', ''carol''], Dir),
      ([''s'', ''carol'', ''2025-01''], Dir),
      ([''s'', ''carol'', ''2025-01'', ''e.log''], File ''five''),
      ([''s'', ''alice'', ''2025-01.tar.zst''],
         Container ''zst''
           [\<lparr>Name = ''2025-01/a.log'', Typeflag = TypeReg, Size = 3, Payload = ''one''\<rparr>] Clean),
      ([''s'', ''bob'', ''2025-01.tar.zst''],
         Container ''zst''
           [\<lparr>Name = ''2025-01/b.log'', Typeflag = TypeReg, Size = 3, Payload = ''two''\<rparr>] Clean)]"

text \<open>Alice has a rotated month; bob has nothing for that month.\<close>

definition leak_fs :: fs where
  "leak_fs =
     [([''s''], Dir),
      ([''s'', ''alice''], Dir),
      ([''s'', ''alice'', ''2025-01.tar.zst''],
         Container ''zst''
           [\<lparr>Name = ''2025-01/a.log'', Typeflag = TypeReg, Size = 6, Payload = ''secret''\<rparr>] Clean),
      ([''s'', ''bob''], Dir)]"

text \<open>An upload by alice on 15 January 2025, and a world in which the copy of its
  body stops after five bytes.\<close>

definition up_fs :: fs where
  "up_fs = [([''s''], Dir), ([''s'', ''alice''], Dir)]"

definition up_request :: upload where
  "up_request = \<lparr>BasicAuth = Some (''alice'', ''pw''), X_File_Date = ''2025-01'',
     X_File_Name = ''a.log'', Body = ''hello world''\<rparr>"

definition up_now :: time where
  "up_now = \<lparr>Year = 2025, Month = 1, Day = 15, Nanos = 0\<rparr>"

definition up_world :: world where
  "up_world = failing [OpCopy [''s'', ''alice'', ''2025-01'', ''a.log.tmp'']] 5 []"

definition up_failed_fs :: fs where
  "up_failed_fs =
     [([''s''], Dir), ([''s'', ''alice''], Dir), ([''s'', ''alice'', ''2025-01''], Dir),
      ([''s'', ''alice'', ''2025-01'', ''a.log.tmp''], File ''hello'')]"


text \<open>Months counted from year 0, to compare calendar months.\<close>

definition month_index :: "time \<Rightarrow> int" where
  "month_index t = 12 * Year t + Month t"

definition date_out_of_range :: response where
  "date_out_of_range = Response 400 (JSONError ''date_out_of_range'')"

text \<open>The last hour of January 2025 (UTC); an upload for one month.\<close>

definition eom_now :: time where
  "eom_now = \<lparr>Year = 2025, Month = 1, Day = 31, Nanos = 82800000000000\<rparr>"

definition upload_for :: "string \<Rightarrow> upload" where
  "upload_for date = \<lparr>BasicAuth = Some (''alice'', ''pw''), X_File_Date = date,
     X_File_Name = ''a.log'', Body = ''hello world''\<rparr>"

section \<open>Properties of the index and of fetch\<close>

lemma scan_indices:
  "scan i es fin t = Inr t' \<Longrightarrow>
   map_of (indices t') n =
     (case last_reg es n of Some k \<Rightarrow> Some (i + k) | None \<Rightarrow> map_of (indices t) n)"
proof (induction es arbitrary: i t)
  case Nil
  then show ?case by (simp split: stream_end.splits)
next
  case (Cons hdr rest)
  then show ?case
    by (auto simp: Let_def regular_named_def update_conv' split: if_splits option.splits)
qed


lemma scan_complete:
  "scan i es fin t = Inr t' \<Longrightarrow> list_all complete es \<and> fin = Clean"
  by (induction es arbitrary: i t) (auto simp: Let_def split: if_splits stream_end.splits)

lemma scan_fields:
  "scan i es fin t = Inr t' \<Longrightarrow> path t' = path t \<and> format t' = format t"
  by (induction es arbitrary: i t) (auto simp: Let_def split: if_splits stream_end.splits)

lemma last_reg_None:
  "last_reg es n = None \<longleftrightarrow> (\<forall>hdr \<in> set es. \<not> regular_named n hdr)"
  by (induction es) (auto split: option.splits)

lemma last_reg_Some:
  "last_reg es n = Some k \<Longrightarrow>
   k < length es \<and> regular_named n (es ! k) \<and>
   (\<forall>j. k < j \<and> j < length es \<longrightarrow> \<not> regular_named n (es ! j))"
proof (induction es arbitrary: k)
  case Nil
  then show ?case by simp
next
  case (Cons hdr rest)
  show ?case
  proof (cases "last_reg rest n")
    case None
    with Cons.prems have k: "k = 0" and r: "regular_named n hdr"
      by (auto split: if_splits)
    from None have "\<forall>j < length rest. \<not> regular_named n (rest ! j)"
      by (simp add: last_reg_None)
    with k r show ?thesis
      by (auto simp: nth_Cons split: nat.splits)
  next
    case (Some k')
    with Cons.prems have "k = Suc k'" by simp
    with Cons.IH[OF Some] show ?thesis
      by (auto simp: nth_Cons split: nat.splits)
  qed
qed

lemma last_reg_last:
  assumes "k < length es" and "regular_named n (es ! k)"
    and "\<forall>j. k < j \<and> j < length es \<longrightarrow> \<not> regular_named n (es ! j)"
  shows "last_reg es n = Some k"
proof (cases "last_reg es n")
  case None
  with assms(1,2) show ?thesis
    by (auto simp: last_reg_None)
next
  case (Some k')
  from last_reg_Some[OF Some] assms show ?thesis
    unfolding Some by (metis linorder_neqE_nat)
qed


lemma seek_nth:
  "k < length es \<Longrightarrow> list_all complete (take k es) \<Longrightarrow> seek k es fin = Inr (es ! k)"
proof (induction k es fin rule: seek.induct)
  case (1 n fin)
  then show ?case by simp
next
  case (2 hdr rest fin)
  then show ?case by simp
next
  case (3 n hdr rest fin)
  then show ?case by simp
qed

text \<open>What a successful \<^verbatim>\<open>NewTarFS\<close> on a container says about it.\<close>

lemma NewTarFS_container:
  assumes "NewTarFS w fsys p = Inr t"
    and "lookup fsys p = Some (Container fmt es fin)"
  shows "scan 0 es Clean \<lparr>path = p, indices = [], sizes = [], format = detectFormat p\<rparr> = Inr t
    \<and> fin = Clean \<and> fmt = format t \<and> path t = p
    \<and> format t \<in> {''gz'', ''bz2'', ''zst'', ''xz''}
    \<and> \<not> fails w (OpOpen p) \<and> \<not> fails w (OpNewReader p)"
proof -
  from assms have s: "scan 0 es fin \<lparr>path = p, indices = [], sizes = [], format = detectFormat p\<rparr> = Inr t"
    and f: "fmt = detectFormat p" "fmt \<in> {''gz'', ''bz2'', ''zst'', ''xz''}"
    and q: "\<not> fails w (OpOpen p)" "\<not> fails w (OpNewReader p)"
    by (auto simp: NewTarFS_def Let_def os_Open_def newTarReader_def split: if_splits)
  from scan_complete[OF s] scan_fields[OF s] s f q show ?thesis by simp
qed

lemma Get_at:
  assumes "map_of (indices t) n = Some k"
    and "lookup fsys (path t) = Some (Container (format t) es fin)"
    and "format t \<in> {''gz'', ''bz2'', ''zst'', ''xz''}"
    and "\<not> fails w (OpOpen (path t))" and "\<not> fails w (OpNewReader (path t))"
    and "k < length es" and "list_all complete (take k es)"
  shows "Get w fsys t n =
    (if Name (es ! k) = n then Inr (closed_reader w (path t) n (es ! k))
     else Inl (ErrExpectedFile n (Name (es ! k))))"
  using assms seek_nth[of k es fin]
  by (auto simp: Get_def os_Open_def newTarReader_def)

text \<open>When a member name occurs more than once, the index holds the ordinal of
  its last regular entry, and \<^verbatim>\<open>Get\<close> returns the reader at that entry.\<close>

lemma last_occurrence_indexed:
  assumes "NewTarFS w fsys p = Inr t"
    and "lookup fsys p = Some (Container fmt es fin)"
    and "j < length es" and "regular_named n (es ! j)"
    and "\<forall>k. j < k \<and> k < length es \<longrightarrow> \<not> regular_named n (es ! k)"
    and "\<not> fails w' (OpOpen p)" and "\<not> fails w' (OpNewReader p)"
  shows "map_of (indices t) n = Some j \<and> Get w' fsys t n = Inr (closed_reader w' p n (es ! j))"
proof -
  note c = NewTarFS_container[OF assms(1,2)]
  from c have s: "scan 0 es Clean \<lparr>path = p, indices = [], sizes = [], format = detectFormat p\<rparr> = Inr t"
    and f: "path t = p" "format t \<in> {''gz'', ''bz2'', ''zst'', ''xz''}"
    and lc: "lookup fsys (path t) = Some (Container (format t) es fin)"
    using assms(2) by auto
  have l: "last_reg es n = Some j"
    using assms(3,4,5) by (rule last_reg_last)
  have idx: "map_of (indices t) n = Some j"
    using scan_indices[OF s, of n] l by simp
  have cm: "list_all complete (take j es)"
    using scan_complete[OF s] by (auto simp: list_all_iff dest: in_set_takeD)
  from Get_at[OF idx lc f(2) _ _ assms(3) cm, of w'] assms(4,6,7) f(1)
  have "Get w' fsys t n = Inr (closed_reader w' p n (es ! j))"
    by (simp add: regular_named_def)
  with idx show ?thesis by simp
qed





section \<open>Properties of rotation\<close>

lemma lookup_update:
  "lookup (AList.update p n fsys) q = (if q = p then Some n else lookup fsys q)"
  by (simp add: lookup_def update_conv')

lemma lookup_remove:
  "lookup (filter (\<lambda>x. \<not> below p x) fsys) q = (if prefix p q then None else lookup fsys q)"
  by (induction fsys) (auto simp: lookup_def below_def)

lemma lookup_filter_other:
  "(\<And>n. P (q, n)) \<Longrightarrow> lookup (filter P fsys) q = lookup fsys q"
  by (induction fsys) (auto simp: lookup_def)

lemma nothing_below_after_remove:
  "filter (below p) (filter (\<lambda>x. \<not> below p x) fsys) = []"
  by (induction fsys) auto

lemma filter_update_other:
  "(\<And>v. \<not> P (k, v)) \<Longrightarrow> filter P (AList.update k n al) = filter P al"
  by (induction al) auto

lemma os_RemoveAll_other:
  assumes "os_RemoveAll w fsys p = (err, fsys')" and "\<not> prefix p q"
  shows "lookup fsys' q = lookup fsys q"
proof -
  from assms(2) have "\<And>n. \<not> removed_before_error w p (q, n)"
    by (simp add: removed_before_error_def below_def)
  from lookup_filter_other[of "\<lambda>x. \<not> removed_before_error w p x" q fsys, OF this] assms
  show ?thesis
    by (auto simp: os_RemoveAll_def lookup_remove split: if_splits)
qed

lemma os_RemoveAll_absent:
  "filter (below p) fsys = [] \<Longrightarrow> os_RemoveAll w fsys p = (None, fsys)"
  by (simp add: os_RemoveAll_def)

lemma os_RemoveAll_nil:
  "os_RemoveAll w fsys p = (None, fsys') \<Longrightarrow> filter (below p) fsys' = []"
  by (auto simp: os_RemoveAll_def nothing_below_after_remove split: if_splits)

lemma CompressDir_exists:
  "lookup fsys (dataDir @ [date @ ''.tar.'' @ fmt]) = Some c \<Longrightarrow>
   CompressDir w fsys dataDir date fmt = (Returns None, fsys)"
  by (simp add: CompressDir_def os_Stat_def IsNotExist_def Let_def)

lemma CompressDir_shape:
  assumes "CompressDir w fsys dataDir date fmt = (r, fsys')"
  shows "fsys' = fsys \<or> (\<exists>n. fsys' = AList.update (dataDir @ [date @ ''.tar.'' @ fmt]) n fsys)"
proof (cases "IsNotExist (os_Stat w fsys (dataDir @ [date @ ''.tar.'' @ fmt]))")
  case False
  with assms show ?thesis by (simp add: CompressDir_def Let_def)
next
  case True
  show ?thesis
  proof (cases "os_Create w fsys (dataDir @ [date @ ''.tar.'' @ fmt])")
    case (Inl e)
    with True assms show ?thesis by (simp add: CompressDir_def Let_def)
  next
    case (Inr fsys1)
    then have 1: "fsys1 = AList.update (dataDir @ [date @ ''.tar.'' @ fmt]) (File []) fsys"
      by (auto simp: os_Create_def split: if_splits)
    have "fsys' = fsys1 \<or> (\<exists>n. fsys' = AList.update (dataDir @ [date @ ''.tar.'' @ fmt]) n fsys1)"
      using assms True Inr
      by (auto simp: CompressDir_def Let_def write_archive_def split: if_splits prod.splits)
    with 1 show ?thesis by auto
  qed
qed

lemma filter_below_update_tarPath:
  "filter (below (dataDir @ [date])) (AList.update (dataDir @ [date @ ''.tar.'' @ fmt]) n fsys)
     = filter (below (dataDir @ [date])) fsys"
  by (rule filter_update_other) (simp add: below_def)

lemma CompressDir_below:
  assumes "CompressDir w fsys dataDir date fmt = (r, fsys')"
  shows "filter (below (dataDir @ [date])) fsys' = filter (below (dataDir @ [date])) fsys"
  using CompressDir_shape[OF assms]
  by (elim disjE exE) (simp_all only: filter_below_update_tarPath)

text \<open>Whenever \<^verbatim>\<open>CompressDir\<close> does not return nil (it returns an error or
  panics), \<^verbatim>\<open>CompressAndRemove\<close> stops there, and everything at and below the
  live directory is as it was.\<close>

lemma rotation_error_keeps_source:
  assumes "CompressDir w fsys dataDir date fmt = (r, fsys1)" and "r \<noteq> Returns None"
  shows "CompressAndRemove w fsys dataDir date fmt = (r, fsys1)
    \<and> filter (below (dataDir @ [date])) fsys1 = filter (below (dataDir @ [date])) fsys"
proof -
  from assms have "CompressAndRemove w fsys dataDir date fmt = (r, fsys1)"
    by (auto simp: CompressAndRemove_def split: outcome.splits option.splits)
  with CompressDir_below[OF assms(1)] show ?thesis by simp
qed

text \<open>
  Claim C3.  The claim says that a rotation that fails before the container is
  fully finalized, a failing close included, does not delete the live directory.
  The errors of the deferred closes are dropped, so \<^verbatim>\<open>CompressDir\<close> returns nil
  and \<^verbatim>\<open>CompressAndRemove\<close> goes on to \<^verbatim>\<open>os.RemoveAll\<close>.  Here closing the tar
  writer fails: the call returns nil, the uploaded file is gone from live storage,
  and the container that is left cannot be indexed.
\<close>

theorem close_failure_deletes_source:
  "CompressAndRemove (failing [OpCloseTar [''s'', ''alice'', ''2025-01.tar.gz'']] 0 [])
      rot_fs [''s'', ''alice''] ''2025-01'' ''gz'' = (Returns None, rotated_fs Broken)
   \<and> lookup rot_fs [''s'', ''alice'', ''2025-01'', ''a.log''] = Some (File ''hello'')
   \<and> lookup (rotated_fs Broken) [''s'', ''alice'', ''2025-01'', ''a.log''] = None
   \<and> NewTarFS quiet (rotated_fs Broken) [''s'', ''alice'', ''2025-01.tar.gz''] = Inl ErrUnexpectedEOF"
  by (simp add: CompressAndRemove_def CompressDir_def os_Stat_def IsNotExist_def os_Create_def
      is_dir_def lookup_def rot_fs_def failing_def write_archive_def Walk_def below_def walk_fn_def
      contents_def deferred_closes_def os_RemoveAll_def rotated_fs_def rot_entries_def Let_def
      NewTarFS_def detectFormat_def Ext_def os_Open_def quiet_def newTarReader_def complete_def
      blocked_def is_file_def)

lemma CompressDir_writes:
  assumes ne: "IsNotExist (os_Stat w fsys (dataDir @ [date @ ''.tar.'' @ fmt]))"
    and "CompressDir w fsys dataDir date fmt = (Returns None, fsys')"
  shows "\<exists>es fin. lookup fsys' (dataDir @ [date @ ''.tar.'' @ fmt]) = Some (Container fmt es fin)"
proof -
  show ?thesis
  proof (cases "os_Create w fsys (dataDir @ [date @ ''.tar.'' @ fmt])")
    case (Inl e)
    with ne assms(2) show ?thesis by (simp add: CompressDir_def Let_def)
  next
    case (Inr fsys1)
    with ne assms(2)
    have "write_archive w fsys1 dataDir date fmt (dataDir @ [date @ ''.tar.'' @ fmt]) = (Returns None, fsys')"
      by (simp add: CompressDir_def Let_def split: if_splits)
    then show ?thesis
      by (auto simp: write_archive_def lookup_update split: if_splits prod.splits)
  qed
qed

lemma CompressAndRemove_nil:
  assumes "CompressAndRemove w fsys dataDir date fmt = (Returns None, fsys')"
  shows "\<exists>fsys1. CompressDir w fsys dataDir date fmt = (Returns None, fsys1)
           \<and> os_RemoveAll w fsys1 (dataDir @ [date]) = (None, fsys')"
  using assms
  by (auto simp: CompressAndRemove_def split: prod.splits outcome.splits option.splits)

text \<open>
  Claim C9.  The claim says that a rotation that finds the container of its month
  is a no-op.  \<^verbatim>\<open>CompressDir\<close> skips the compression and returns nil, and on nil
  \<^verbatim>\<open>CompressAndRemove\<close> goes on to \<^verbatim>\<open>os.RemoveAll\<close> of the live directory.  Here
  a first rotation, in which opening \<^verbatim>\<open>a.log\<close> fails, returns the error and leaves
  a container without the file's bytes next to the live directory.  The second
  rotation, in a world without failures, finds that container and removes the
  live directory: it is not a no-op, and the file is in neither place.
\<close>

theorem retry_deletes_unarchived_source:
  "CompressAndRemove (failing [OpOpen [''s'', ''alice'', ''2025-01'', ''a.log'']] 0 [])
      rot_fs [''s'', ''alice''] ''2025-01'' ''gz''
     = (Returns (Some (ErrFault (OpOpen [''s'', ''alice'', ''2025-01'', ''a.log'']))), partial_fs)
   \<and> lookup partial_fs [''s'', ''alice'', ''2025-01.tar.gz'']
       = Some (Container ''gz'' partial_entries Clean)
   \<and> lookup partial_fs [''s'', ''alice'', ''2025-01'', ''a.log''] = Some (File ''hello'')
   \<and> CompressAndRemove quiet partial_fs [''s'', ''alice''] ''2025-01'' ''gz''
       = (Returns None, emptied_fs)
   \<and> lookup emptied_fs [''s'', ''alice'', ''2025-01'', ''a.log''] = None
   \<and> emptied_fs \<noteq> partial_fs"
  by (simp add: CompressAndRemove_def CompressDir_def os_Stat_def IsNotExist_def os_Create_def
      is_dir_def lookup_def rot_fs_def failing_def quiet_def write_archive_def Walk_def below_def
      walk_fn_def contents_def deferred_closes_def os_RemoveAll_def partial_fs_def
      partial_entries_def emptied_fs_def Let_def blocked_def is_file_def)

text \<open>What does hold when the container of a month exists: \<^verbatim>\<open>CompressDir\<close>
  returns nil and changes nothing, and \<^verbatim>\<open>CompressAndRemove\<close> returns (never
  panics) and leaves the container as it was; when there is no live directory
  either, it returns nil and changes nothing at all.  So after a first rotation
  that found no container and returned nil, the container is there, and a second
  rotation, in any world, returns nil and leaves every file as the first one left
  it.\<close>

lemma existing_container_is_kept:
  "(lookup fsys (dataDir @ [date @ ''.tar.'' @ fmt]) = Some c \<longrightarrow>
      CompressDir w fsys dataDir date fmt = (Returns None, fsys)
      \<and> (\<exists>err fsys'. CompressAndRemove w fsys dataDir date fmt = (Returns err, fsys')
            \<and> lookup fsys' (dataDir @ [date @ ''.tar.'' @ fmt]) = Some c)
      \<and> (filter (below (dataDir @ [date])) fsys = [] \<longrightarrow>
            CompressAndRemove w fsys dataDir date fmt = (Returns None, fsys)))
   \<and> (IsNotExist (os_Stat w fsys (dataDir @ [date @ ''.tar.'' @ fmt]))
        \<and> CompressAndRemove w fsys dataDir date fmt = (Returns None, fsys1) \<longrightarrow>
      (\<exists>es fin. lookup fsys1 (dataDir @ [date @ ''.tar.'' @ fmt]) = Some (Container fmt es fin))
      \<and> (\<forall>w2. CompressAndRemove w2 fsys1 dataDir date fmt = (Returns None, fsys1)))"
proof -
  have nb: "\<not> prefix (dataDir @ [date]) (dataDir @ [date @ ''.tar.'' @ fmt])"
    by simp
  have skip: "CompressAndRemove v g dataDir date fmt = (Returns None, g)"
    if "lookup g (dataDir @ [date @ ''.tar.'' @ fmt]) = Some d"
      "filter (below (dataDir @ [date])) g = []" for v g d
    using CompressDir_exists[OF that(1)] os_RemoveAll_absent[OF that(2)]
    by (simp add: CompressAndRemove_def)
  have kept: "\<exists>err fsys'. CompressAndRemove w fsys dataDir date fmt = (Returns err, fsys')
      \<and> lookup fsys' (dataDir @ [date @ ''.tar.'' @ fmt]) = Some c"
    if ex: "lookup fsys (dataDir @ [date @ ''.tar.'' @ fmt]) = Some c"
  proof -
    obtain err fsys' where rm: "os_RemoveAll w fsys (dataDir @ [date]) = (err, fsys')"
      by (cases "os_RemoveAll w fsys (dataDir @ [date])")
    with CompressDir_exists[OF ex]
    have "CompressAndRemove w fsys dataDir date fmt = (Returns err, fsys')"
      by (simp add: CompressAndRemove_def)
    moreover from os_RemoveAll_other[OF rm nb] ex
    have "lookup fsys' (dataDir @ [date @ ''.tar.'' @ fmt]) = Some c"
      by simp
    ultimately show ?thesis by blast
  qed
  have twice: "(\<exists>es fin. lookup fsys1 (dataDir @ [date @ ''.tar.'' @ fmt]) = Some (Container fmt es fin))
      \<and> (\<forall>w2. CompressAndRemove w2 fsys1 dataDir date fmt = (Returns None, fsys1))"
    if none: "IsNotExist (os_Stat w fsys (dataDir @ [date @ ''.tar.'' @ fmt]))"
      and first: "CompressAndRemove w fsys dataDir date fmt = (Returns None, fsys1)"
  proof -
    from CompressAndRemove_nil[OF first] obtain fsys0
      where cd: "CompressDir w fsys dataDir date fmt = (Returns None, fsys0)"
        and rm: "os_RemoveAll w fsys0 (dataDir @ [date]) = (None, fsys1)"
      by blast
    from CompressDir_writes[OF none cd] obtain es fin
      where "lookup fsys0 (dataDir @ [date @ ''.tar.'' @ fmt]) = Some (Container fmt es fin)"
      by blast
    with os_RemoveAll_other[OF rm nb]
    have c1: "lookup fsys1 (dataDir @ [date @ ''.tar.'' @ fmt]) = Some (Container fmt es fin)"
      by simp
    from skip[OF c1 os_RemoveAll_nil[OF rm]] c1 show ?thesis by blast
  qed
  from CompressDir_exists kept skip twice show ?thesis by blast
qed

text \<open>
  Claim C10.  Once \<^verbatim>\<open>CompressDir\<close> has created the container file, the format
  \<^verbatim>\<open>bz2\<close> makes it panic, and so does every format outside gz, bz2, zst and xz
  (the tar writer is nil).  \<^verbatim>\<open>New\<close> refuses every format but zst, gz and xz, and
  for the format of a server that \<^verbatim>\<open>New\<close> returned, \<^verbatim>\<open>CompressDir\<close> returns:
  nil or an error, never a panic.
\<close>

theorem writer_construction_total:
  "(IsNotExist (os_Stat w fsys (dataDir @ [date @ ''.tar.'' @ ''bz2'']))
      \<and> os_Create w fsys (dataDir @ [date @ ''.tar.'' @ ''bz2'']) = Inr fsys1 \<longrightarrow>
      CompressDir w fsys dataDir date ''bz2'' = (Panics ''bzip2 has no writer'', fsys1))
   \<and> (fmt \<notin> {''gz'', ''bz2'', ''zst'', ''xz''}
      \<and> IsNotExist (os_Stat w fsys (dataDir @ [date @ ''.tar.'' @ fmt]))
      \<and> os_Create w fsys (dataDir @ [date @ ''.tar.'' @ fmt]) = Inr fsys1 \<longrightarrow>
      CompressDir w fsys dataDir date fmt = (Panics ''nil pointer dereference'', fsys1))
   \<and> (c \<notin> {''zst'', ''gz'', ''xz''} \<longrightarrow> New verify dir c = Inl (ErrUnsupportedCompression c))
   \<and> (New verify dir c = Inr s \<longrightarrow>
        compress s \<in> {''zst'', ''gz'', ''xz''}
        \<and> (\<exists>err. fst (CompressDir w fsys dataDir date (compress s)) = Returns err))"
proof -
  have ret: "\<exists>err. fst (CompressDir w fsys dataDir date f) = Returns err"
    if "f \<in> {''zst'', ''gz'', ''xz''}" for f
    using that
    by (auto simp: CompressDir_def Let_def write_archive_def split: sum.splits prod.splits)
  have new: "compress s \<in> {''zst'', ''gz'', ''xz''}" if "New verify dir c = Inr s"
    using that by (auto simp: New_def split: if_splits)
  show ?thesis
    using ret new by (auto simp: CompressDir_def Let_def New_def)
qed

theorem writer_construction_total_witness:
  "CompressDir quiet rot_fs [''s'', ''alice''] ''2025-01'' ''bz2''
      = (Panics ''bzip2 has no writer'', AList.update [''s'', ''alice'', ''2025-01.tar.bz2''] (File []) rot_fs)
   \<and> CompressDir quiet rot_fs [''s'', ''alice''] ''2025-01'' ''lz4''
      = (Panics ''nil pointer dereference'', AList.update [''s'', ''alice'', ''2025-01.tar.lz4''] (File []) rot_fs)
   \<and> New (\<lambda>u p. True) [''s''] ''bz2'' = Inl (ErrUnsupportedCompression ''bz2'')
   \<and> New (\<lambda>u p. True) [''s''] ''zst''
        = Inr \<lparr>auth = (\<lambda>u p. True), storage = [''s''], compress = ''zst'', tarFS = Map.empty\<rparr>
   \<and> (\<exists>err. fst (CompressDir quiet rot_fs [''s'', ''alice''] ''2025-01'' ''zst'') = Returns err)"
proof -
  have st: "IsNotExist (os_Stat quiet rot_fs ([''s'', ''alice''] @ [''2025-01'' @ ''.tar.'' @ f]))" for f
    by (simp add: os_Stat_def IsNotExist_def quiet_def lookup_def rot_fs_def blocked_def is_file_def)
  have cr: "os_Create quiet rot_fs ([''s'', ''alice''] @ [''2025-01'' @ ''.tar.'' @ f])
      = Inr (AList.update ([''s'', ''alice''] @ [''2025-01'' @ ''.tar.'' @ f]) (File []) rot_fs)" for f
    by (simp add: os_Create_def quiet_def is_dir_def lookup_def rot_fs_def)
  have n: "New (\<lambda>u p. True) [''s''] ''zst''
        = Inr \<lparr>auth = (\<lambda>u p. True), storage = [''s''], compress = ''zst'', tarFS = Map.empty\<rparr>"
    by (simp add: New_def)
  have l: "''lz4'' \<notin> {''gz'', ''bz2'', ''zst'', ''xz''}" and b: "''bz2'' \<notin> {''zst'', ''gz'', ''xz''}"
    by simp_all
  note t = writer_construction_total[of quiet rot_fs "[''s'', ''alice'']" "''2025-01''"
      "AList.update ([''s'', ''alice''] @ [''2025-01'' @ ''.tar.'' @ ''bz2'']) (File []) rot_fs"
      "''lz4''" "''bz2''" "\<lambda>u p. True" "[''s'']"]
  note u = writer_construction_total[of quiet rot_fs "[''s'', ''alice'']" "''2025-01''"
      "AList.update ([''s'', ''alice''] @ [''2025-01'' @ ''.tar.'' @ ''lz4'']) (File []) rot_fs"
      "''lz4''" "''zst''" "\<lambda>u p. True" "[''s'']"
      "\<lparr>auth = (\<lambda>u p. True), storage = [''s''], compress = ''zst'', tarFS = Map.empty\<rparr>"]
  from t st[of "''bz2''"] cr[of "''bz2''"] b
  have 1: "CompressDir quiet rot_fs [''s'', ''alice''] ''2025-01'' ''bz2''
      = (Panics ''bzip2 has no writer'', AList.update ([''s'', ''alice''] @ [''2025-01'' @ ''.tar.'' @ ''bz2'']) (File []) rot_fs)"
    and 3: "New (\<lambda>u p. True) [''s''] ''bz2'' = Inl (ErrUnsupportedCompression ''bz2'')"
    by blast+
  from u st[of "''lz4''"] cr[of "''lz4''"] l n
  have 2: "CompressDir quiet rot_fs [''s'', ''alice''] ''2025-01'' ''lz4''
      = (Panics ''nil pointer dereference'', AList.update ([''s'', ''alice''] @ [''2025-01'' @ ''.tar.'' @ ''lz4'']) (File []) rot_fs)"
    and 4: "\<exists>err. fst (CompressDir quiet rot_fs [''s'', ''alice''] ''2025-01'' (compress
       \<lparr>auth = (\<lambda>u p. True), storage = [''s''], compress = ''zst'', tarFS = Map.empty\<rparr>)) = Returns err"
    by blast+
  from 1 2 3 4 n show ?thesis by simp
qed

section \<open>Properties of the sweep\<close>

lemma compress_dates_append:
  "compress_dates w c u th xs fsys tb = (Returns (Inr tb1), fsys1) \<Longrightarrow>
   compress_dates w c u th (xs @ ys) fsys tb = compress_dates w c u th ys fsys1 tb1"
proof (induction xs arbitrary: fsys tb)
  case Nil
  then show ?case by simp
next
  case (Cons x xs)
  show ?case
  proof (cases "snd x \<and> parse_month (fst x) \<noteq> None \<and> \<not> th \<le> fst x")
    case False
    with Cons.prems have "compress_dates w c u th xs fsys tb = (Returns (Inr tb1), fsys1)"
      by (auto simp: Let_def split: if_splits)
    from Cons.IH[OF this] False show ?thesis
      by (auto simp: Let_def)
  next
    case True
    with Cons.prems obtain fsys' where
      r: "CompressAndRemove w fsys u (fst x) c = (Returns None, fsys')" and
      k: "compress_dates w c u th xs fsys' (tb @ [u @ [fst x @ ''.tar.'' @ c]]) = (Returns (Inr tb1), fsys1)"
      by (auto simp: Let_def split: prod.splits outcome.splits option.splits)
    from Cons.IH[OF k] True r show ?thesis
      by (auto simp: Let_def)
  qed
qed

lemma compress_dates_fails:
  assumes "parse_month d \<noteq> None" and "d < th"
    and "CompressAndRemove w fsys u d c = (Returns (Some e), fsys')"
  shows "compress_dates w c u th ((d, True) # post) fsys tb = (Returns (Inl e), fsys')"
  using assms by (auto simp: Let_def not_le[symmetric])

lemma compress_users_append:
  "compress_users w s th xs fsys tb = (Returns (Inr tb1), fsys1) \<Longrightarrow>
   compress_users w s th (xs @ ys) fsys tb = compress_users w s th ys fsys1 tb1"
proof (induction xs arbitrary: fsys tb)
  case Nil
  then show ?case by simp
next
  case (Cons x xs)
  show ?case
  proof (cases "snd x")
    case False
    with Cons show ?thesis by simp
  next
    case True
    show ?thesis
    proof (cases "os_ReadDir w fsys (storage s @ [fst x])")
      case (Inl err)
      with True Cons show ?thesis by (simp add: Let_def)
    next
      case (Inr ds)
      with True Cons.prems obtain tb' fsys' where
        r: "compress_dates w (compress s) (storage s @ [fst x]) th ds fsys tb = (Returns (Inr tb'), fsys')" and
        k: "compress_users w s th xs fsys' tb' = (Returns (Inr tb1), fsys1)"
        by (auto simp: Let_def split: prod.splits outcome.splits sum.splits)
      from Cons.IH[OF k] True Inr r show ?thesis
        by (simp add: Let_def)
    qed
  qed
qed

text \<open>
  Claim C2, as stated, fails.  Creating the container of alice's first month
  fails; \<^verbatim>\<open>CompressAll\<close> returns that error at once and leaves the tree as it was,
  although rotating alice's second month and bob's month would succeed in the
  same world: neither was attempted, and neither container exists afterwards.
\<close>

theorem sweep_continues_counterexample:
  "CompressAll sweep_world srv 0 0 sweep_fs
      = (Returns (Inl (ErrFault (OpCreate [''s'', ''alice'', ''2025-01.tar.zst'']))), sweep_fs)
   \<and> fst (CompressAndRemove sweep_world sweep_fs [''s'', ''alice''] ''2025-02'' ''zst'') = Returns None
   \<and> fst (CompressAndRemove sweep_world sweep_fs [''s'', ''bob''] ''2025-01'' ''zst'') = Returns None
   \<and> lookup sweep_fs [''s'', ''alice'', ''2025-02.tar.zst''] = None
   \<and> lookup sweep_fs [''s'', ''bob'', ''2025-01.tar.zst''] = None"
  by (simp add: CompressAll_def sweep_world_def failing_def srv_def os_ReadDir_def lookup_def
      sweep_fs_def children_def Let_def is_digit_def digit_def Date_def daysIn_def
      CompressAndRemove_def CompressDir_def os_Stat_def IsNotExist_def os_Create_def is_dir_def
      write_archive_def Walk_def below_def walk_fn_def contents_def deferred_closes_def
      os_RemoveAll_def blocked_def is_file_def)

text \<open>
  Claim C2, amended.  \<^verbatim>\<open>CompressAll\<close> rotates the eligible months in directory
  order and stops at the first rotation that returns an error: when the users
  listed before \<open>u\<close> and the entries listed before \<open>d\<close> in \<open>u\<close>'s directory go
  through, and rotating the eligible month \<open>d\<close> returns the error \<open>e\<close>, then the
  sweep returns \<open>e\<close> with the file system exactly as that rotation left it,
  whatever is listed after \<open>d\<close> and after \<open>u\<close>.  When the error is the one of
  \<^verbatim>\<open>CompressDir\<close>, the live directory of \<open>d\<close> is as it was before that rotation.
\<close>

theorem sweep_stops_at_first_failure:
  assumes "os_ReadDir w fsys (storage s) = Inr (upre @ (u, True) # upost)"
    and "compress_users w s (month_of w (now - stale)) upre fsys [] = (Returns (Inr tb0), fsys0)"
    and "os_ReadDir w fsys0 (storage s @ [u]) = Inr (pre @ (d, True) # post)"
    and "compress_dates w (compress s) (storage s @ [u]) (month_of w (now - stale)) pre fsys0 tb0
           = (Returns (Inr tb1), fsys1)"
    and "parse_month d \<noteq> None" and "d < month_of w (now - stale)"
    and "CompressAndRemove w fsys1 (storage s @ [u]) d (compress s) = (Returns (Some e), fsys2)"
  shows "CompressAll w s now stale fsys = (Returns (Inl e), fsys2)
    \<and> (fst (CompressDir w fsys1 (storage s @ [u]) d (compress s)) \<noteq> Returns None \<longrightarrow>
          filter (below (storage s @ [u] @ [d])) fsys2 = filter (below (storage s @ [u] @ [d])) fsys1)"
proof -
  let ?th = "month_of w (now - stale)"
  have "compress_dates w (compress s) (storage s @ [u]) ?th (pre @ (d, True) # post) fsys0 tb0
      = (Returns (Inl e), fsys2)"
    using compress_dates_append[OF assms(4)] compress_dates_fails[OF assms(5,6,7)]
    by simp
  with assms(3) have "compress_users w s ?th ((u, True) # upost) fsys0 tb0 = (Returns (Inl e), fsys2)"
    by (simp add: Let_def)
  with compress_users_append[OF assms(2)]
  have "compress_users w s ?th (upre @ (u, True) # upost) fsys [] = (Returns (Inl e), fsys2)"
    by simp
  with assms(1) have 1: "CompressAll w s now stale fsys = (Returns (Inl e), fsys2)"
    by (simp add: CompressAll_def Let_def)
  have 2: "filter (below (storage s @ [u] @ [d])) fsys2 = filter (below (storage s @ [u] @ [d])) fsys1"
    if "fst (CompressDir w fsys1 (storage s @ [u]) d (compress s)) \<noteq> Returns None"
  proof -
    obtain r g where c: "CompressDir w fsys1 (storage s @ [u]) d (compress s) = (r, g)"
      by (cases "CompressDir w fsys1 (storage s @ [u]) d (compress s)")
    with that have "r \<noteq> Returns None" by simp
    from rotation_error_keeps_source[OF c this] assms(7) show ?thesis by simp
  qed
  from 1 2 show ?thesis by blast
qed

theorem sweep_stops_at_first_failure_witness:
  "os_ReadDir long_world long_fs (storage srv)
      = Inr ([(''alice'', True)] @ (''bob'', True) # [(''carol'', True)])
   \<and> compress_users long_world srv (month_of long_world (0 - 0)) [(''alice'', True)] long_fs []
      = (Returns (Inr [[''s'', ''alice'', ''2025-01.tar.zst'']]), long_fs_alice)
   \<and> os_ReadDir long_world long_fs_alice (storage srv @ [''bob''])
      = Inr ([(''2025-01'', True)] @ (''2025-02'', True) # [(''2025-03'', True)])
   \<and> compress_dates long_world (compress srv) (storage srv @ [''bob'']) (month_of long_world (0 - 0))
        [(''2025-01'', True)] long_fs_alice [[''s'', ''alice'', ''2025-01.tar.zst'']]
      = (Returns (Inr [[''s'', ''alice'', ''2025-01.tar.zst''], [''s'', ''bob'', ''2025-01.tar.zst'']]),
         long_fs_bob)
   \<and> parse_month ''2025-02'' \<noteq> None
   \<and> ''2025-02'' < month_of long_world (0 - 0)
   \<and> CompressAndRemove long_world long_fs_bob (storage srv @ [''bob'']) ''2025-02'' (compress srv)
        = (Returns (Some (ErrFault (OpCreate [''s'', ''bob'', ''2025-02.tar.zst'']))), long_fs_bob)
   \<and> CompressAll long_world srv 0 0 long_fs
        = (Returns (Inl (ErrFault (OpCreate [''s'', ''bob'', ''2025-02.tar.zst'']))), long_fs_bob)
   \<and> lookup long_fs_bob [''s'', ''bob'', ''2025-02'', ''c.log''] = Some (File ''three'')
   \<and> lookup long_fs_bob [''s'', ''bob'', ''2025-03.tar.zst''] = None
   \<and> lookup long_fs_bob [''s'', ''carol'', ''2025-01.tar.zst''] = None"
proof -
  have 1: "os_ReadDir long_world long_fs (storage srv)
      = Inr ([(''alice'', True)] @ (''bob'', True) # [(''carol'', True)])"
    by (simp add: long_world_def failing_def srv_def os_ReadDir_def lookup_def long_fs_def children_def)
  have 2: "compress_users long_world srv (month_of long_world (0 - 0)) [(''alice'', True)] long_fs []
      = (Returns (Inr [[''s'', ''alice'', ''2025-01.tar.zst'']]), long_fs_alice)"
    by (simp add: long_world_def failing_def srv_def os_ReadDir_def lookup_def long_fs_def children_def
        Let_def is_digit_def digit_def Date_def daysIn_def
        CompressAndRemove_def CompressDir_def os_Stat_def IsNotExist_def os_Create_def is_dir_def
        write_archive_def Walk_def below_def walk_fn_def contents_def deferred_closes_def
        os_RemoveAll_def blocked_def is_file_def long_fs_alice_def)
  have 3: "os_ReadDir long_world long_fs_alice (storage srv @ [''bob''])
      = Inr ([(''2025-01'', True)] @ (''2025-02'', True) # [(''2025-03'', True)])"
    by (simp add: long_world_def failing_def srv_def os_ReadDir_def lookup_def long_fs_alice_def
        children_def)
  have 4: "compress_dates long_world (compress srv) (storage srv @ [''bob'']) (month_of long_world (0 - 0))
        [(''2025-01'', True)] long_fs_alice [[''s'', ''alice'', ''2025-01.tar.zst'']]
      = (Returns (Inr [[''s'', ''alice'', ''2025-01.tar.zst''], [''s'', ''bob'', ''2025-01.tar.zst'']]),
         long_fs_bob)"
    by (simp add: long_world_def failing_def srv_def lookup_def long_fs_alice_def
        Let_def is_digit_def digit_def Date_def daysIn_def
        CompressAndRemove_def CompressDir_def os_Stat_def IsNotExist_def os_Create_def is_dir_def
        write_archive_def Walk_def below_def walk_fn_def contents_def deferred_closes_def
        os_RemoveAll_def blocked_def is_file_def long_fs_bob_def)
  have 5: "parse_month ''2025-02'' \<noteq> None"
    by (simp add: is_digit_def digit_def)
  have 6: "''2025-02'' < month_of long_world (0 - 0)"
    by (simp add: long_world_def failing_def)
  have 7: "CompressAndRemove long_world long_fs_bob (storage srv @ [''bob'']) ''2025-02'' (compress srv)
        = (Returns (Some (ErrFault (OpCreate [''s'', ''bob'', ''2025-02.tar.zst'']))), long_fs_bob)"
    by (simp add: long_world_def failing_def srv_def lookup_def long_fs_bob_def
      CompressAndRemove_def CompressDir_def os_Stat_def IsNotExist_def os_Create_def Let_def
      blocked_def is_file_def)
  have 8: "lookup long_fs_bob [''s'', ''bob'', ''2025-02'', ''c.log''] = Some (File ''three'')"
    "lookup long_fs_bob [''s'', ''bob'', ''2025-03.tar.zst''] = None"
    "lookup long_fs_bob [''s'', ''carol'', ''2025-01.tar.zst''] = None"
    by (simp_all add: lookup_def long_fs_bob_def)
  from sweep_stops_at_first_failure[OF 1 2 3 4 5 6 7] 1 2 3 4 5 6 7 8 show ?thesis
    by simp
qed

section \<open>Properties of the request handlers\<close>

text \<open>
  Claim C1.  The claim says the archive cache is keyed by owner and month, so that
  a request of one owner is never served from another owner's archive.  The map
  \<^verbatim>\<open>tarFS\<close> is keyed by the month alone.  Here alice reads a file of her rotated
  month, which caches her index under \<^verbatim>\<open>2025-01\<close>; bob, who has no container for
  that month, then gets alice's file and alice's file list, where a server with a
  cold cache answers not-found to both of bob's requests.
\<close>

theorem cache_serves_other_owner:
  "fst (GetFile quiet srv (Some (''alice'', ''pw'')) ''alice'' ''2025-01'' ''a.log'' leak_fs)
      = Response 200 (Stream ''secret'')
   \<and> fst (GetFile quiet
            (snd (GetFile quiet srv (Some (''alice'', ''pw'')) ''alice'' ''2025-01'' ''a.log'' leak_fs))
            (Some (''bob'', ''pw'')) ''bob'' ''2025-01'' ''a.log'' leak_fs)
      = Response 200 (Stream ''secret'')
   \<and> fst (ListFiles quiet
            (snd (GetFile quiet srv (Some (''alice'', ''pw'')) ''alice'' ''2025-01'' ''a.log'' leak_fs))
            (Some (''bob'', ''pw'')) ''bob'' ''2025-01'' leak_fs)
      = Response 201 (JSONResults [''a.log''])
   \<and> fst (GetFile quiet srv (Some (''bob'', ''pw'')) ''bob'' ''2025-01'' ''a.log'' leak_fs)
      = Response 404 (JSONError ''file_not_found'')
   \<and> fst (ListFiles quiet srv (Some (''bob'', ''pw'')) ''bob'' ''2025-01'' leak_fs)
      = Response 404 (JSONError ''file_not_found'')
   \<and> lookup leak_fs [''s'', ''bob'', ''2025-01.tar.zst''] = None"
  by (simp add: GetFile_def ListFiles_def srv_def quiet_def is_digit_def digit_def os_Open_def
      lookup_def leak_fs_def cached_tarfs_def NewTarFS_def detectFormat_def Ext_def
      newTarReader_def complete_def Get_def os_ReadDir_def EntryPaths_def TrimPrefix_def Let_def
      Join_def Join_rel_def clean_step_def closed_reader_def entry_bytes_def)

lemma mkdirs_other:
  "mkdirs fsys ds = Inr fsys1 \<Longrightarrow> q \<notin> set ds \<Longrightarrow> lookup fsys1 q = lookup fsys q"
proof (induction ds arbitrary: fsys)
  case Nil
  then show ?case by simp
next
  case (Cons d ds)
  then show ?case
    by (auto simp: lookup_def update_conv' split: option.splits node.splits)
qed

lemma os_MkdirAll_other:
  assumes "os_MkdirAll w fsys p = Inr fsys1" and "\<not> prefix q p"
  shows "lookup fsys1 q = lookup fsys q"
proof -
  from assms(2) have "q \<notin> set (prefixes p)" by simp
  then have "q \<notin> set (tl (prefixes p))"
    by (auto dest: list.set_sel(2)[rotated])
  with assms show ?thesis
    by (auto simp: os_MkdirAll_def dest: mkdirs_other split: if_splits)
qed

lemma add_suffix_differs: "suf \<noteq> [] \<Longrightarrow> add_suffix p suf \<noteq> p"
  by (cases p rule: rev_cases) (auto simp: add_suffix_def)

text \<open>The target of an upload changes only by the rename, as long as the target
  is not the month directory or a directory above it (as it is for a file name
  without separators and dots): after the answer 201 it holds the body and the
  temporary file is gone; after any other answer it is as it was.\<close>

lemma upload_writes_target_by_rename:
  assumes "UploadLog w s now r fsys = (resp, fsys')" and "BasicAuth r = Some (u, pw)"
    and "\<not> prefix (Join (Join (storage s) [u, X_File_Date r]) [X_File_Name r])
                   (Join (storage s) [u, X_File_Date r])"
  shows "(resp = Response 201 JSONMessage \<longrightarrow>
            lookup fsys' (Join (Join (storage s) [u, X_File_Date r]) [X_File_Name r])
              = Some (File (Body r))
            \<and> lookup fsys' (add_suffix (Join (Join (storage s) [u, X_File_Date r]) [X_File_Name r]) ''.tmp'')
              = None)
    \<and> (resp \<noteq> Response 201 JSONMessage \<longrightarrow>
            lookup fsys' (Join (Join (storage s) [u, X_File_Date r]) [X_File_Name r])
              = lookup fsys (Join (Join (storage s) [u, X_File_Date r]) [X_File_Name r]))"
proof -
  let ?dir = "Join (storage s) [u, X_File_Date r]"
  let ?dst = "Join ?dir [X_File_Name r]"
  let ?tmp = "add_suffix ?dst ''.tmp''"
  have ne: "?dst \<noteq> ?tmp" "?tmp \<noteq> ?dst"
    using add_suffix_differs[of "''.tmp''" ?dst] by auto
  show ?thesis
  proof (cases "os_MkdirAll w fsys ?dir")
    case (Inl e)
    with assms show ?thesis
      by (auto simp: UploadLog_def Let_def split: if_splits option.splits)
  next
    case mk: (Inr fsys1)
    note d1 = os_MkdirAll_other[OF mk assms(3)]
    show ?thesis
    proof (cases "os_Create w fsys1 ?tmp")
      case (Inl e)
      with assms mk d1 show ?thesis
        by (auto simp: UploadLog_def Let_def split: if_splits option.splits)
    next
      case cr: (Inr fsys2)
      then have f2: "fsys2 = AList.update ?tmp (File []) fsys1"
        by (auto simp: os_Create_def split: if_splits)
      show ?thesis
      proof (cases "fails w (OpCopy ?tmp)")
        case True
        with assms mk cr d1 f2 ne show ?thesis
          by (auto simp: UploadLog_def Let_def lookup_def update_conv' split: if_splits option.splits)
      next
        case False
        let ?fsys3 = "AList.update ?tmp (File (Body r)) fsys2"
        show ?thesis
        proof (cases "os_Rename w ?fsys3 ?tmp ?dst")
          case (Inl e)
          with assms mk cr d1 f2 ne False show ?thesis
            by (auto simp: UploadLog_def Let_def lookup_def update_conv' split: if_splits option.splits)
        next
          case (Inr fsys4)
          then have "fsys4 = AList.update ?dst (File (Body r)) (AList.delete ?tmp ?fsys3)"
            by (auto simp: os_Rename_def lookup_def update_conv' split: if_splits option.splits)
          with assms mk cr False Inr ne show ?thesis
            by (auto simp: UploadLog_def Let_def lookup_def update_conv' delete_conv'
                split: if_splits option.splits)
        qed
      qed
    qed
  qed
qed

text \<open>
  Claim C4.  The claim says that when the write fails part way, no partially
  written data of the upload is visible through list-files or get-file.  The
  handler returns without removing the temporary file.  Here the copy stops after
  five of eleven bytes: the upload is answered with status 500, and afterwards
  list-files shows \<^verbatim>\<open>a.log.tmp\<close> and get-file of that name returns the five bytes.
\<close>

theorem failed_upload_is_visible:
  "UploadLog up_world srv up_now up_request up_fs
      = (Response 500 (JSONError ''write_failed''), up_failed_fs)
   \<and> fst (ListFiles quiet srv (Some (''alice'', ''pw'')) ''alice'' ''2025-01'' up_failed_fs)
      = Response 201 (JSONResults [''a.log.tmp''])
   \<and> fst (GetFile quiet srv (Some (''alice'', ''pw'')) ''alice'' ''2025-01'' ''a.log.tmp'' up_failed_fs)
      = Response 200 (Stream ''hello'')"
  by (simp add: UploadLog_def up_world_def failing_def srv_def up_now_def up_request_def up_fs_def
      is_digit_def digit_def Date_def AddDate_def daysIn_def isLeap_def Before_def After_def
      os_MkdirAll_def lookup_def os_Create_def is_dir_def up_failed_fs_def Let_def
      ListFiles_def GetFile_def quiet_def os_ReadDir_def children_def os_Open_def contents_def
      Join_def clean_step_def add_suffix_def)

text \<open>What does hold of \<^verbatim>\<open>GetFile\<close>: a live file that opens is returned whole,
  whatever the cache and the archive hold, and the cache is not touched.\<close>

lemma live_file_wins:
  assumes "auth s user pw" and "parse_month date \<noteq> None"
    and "lookup fsys (Join (storage s) [user, date, name]) = Some (File b)"
    and "\<not> fails w (OpOpen (Join (storage s) [user, date, name]))"
  shows "GetFile w s (Some (user, pw)) user date name fsys = (Response 200 (Stream b), s)"
  using assms by (auto simp: GetFile_def os_Open_def contents_def Let_def)


section \<open>Properties of the upload window\<close>

lemma daysIn_bounds: "28 \<le> daysIn m y \<and> daysIn m y \<le> 31"
  by (simp add: daysIn_def)

lemma Date_normal:
  "1 \<le> m \<Longrightarrow> m \<le> 12 \<Longrightarrow> d \<le> daysIn m y \<Longrightarrow>
   Date y m d ns = \<lparr>Year = y, Month = m, Day = d, Nanos = ns\<rparr>"
  by (simp add: Date_def Let_def)

lemma parse_month_first:
  assumes "parse_month str = Some dt"
  shows "1 \<le> Month dt \<and> Month dt \<le> 12 \<and> Day dt = 1 \<and> Nanos dt = 0"
  using assms
proof (cases rule: parse_month.elims)
  case (1 y1 y2 y3 y4 dash m1 m2)
  then have m: "1 \<le> 10 * digit m1 + digit m2" "10 * digit m1 + digit m2 \<le> 12"
    and dt: "dt = Date (1000 * digit y1 + 100 * digit y2 + 10 * digit y3 + digit y4)
                   (10 * digit m1 + digit m2) 1 0"
    by (auto split: if_splits)
  have "1 \<le> daysIn (10 * digit m1 + digit m2) (1000 * digit y1 + 100 * digit y2 + 10 * digit y3 + digit y4)"
    using daysIn_bounds[of "10 * digit m1 + digit m2"
        "1000 * digit y1 + 100 * digit y2 + 10 * digit y3 + digit y4"] by linarith
  from Date_normal[OF m this] dt m show ?thesis by simp
qed simp_all

lemma first_of_last_month:
  assumes "valid_time now"
  shows "month_index (AddDate (Date (Year now) (Month now) 1 0) 0 (- 1) 0) = month_index now - 1
    \<and> 1 \<le> Month (AddDate (Date (Year now) (Month now) 1 0) 0 (- 1) 0)
    \<and> Month (AddDate (Date (Year now) (Month now) 1 0) 0 (- 1) 0) \<le> 12
    \<and> Day (AddDate (Date (Year now) (Month now) 1 0) 0 (- 1) 0) = 1
    \<and> Nanos (AddDate (Date (Year now) (Month now) 1 0) 0 (- 1) 0) = 0"
proof -
  from assms have m: "1 \<le> Month now" "Month now \<le> 12"
    by (auto simp: valid_time_def)
  have d: "1 \<le> daysIn m y" for m y
    using daysIn_bounds[of m y] by linarith
  have c: "Date (Year now) (Month now) 1 0 = \<lparr>Year = Year now, Month = Month now, Day = 1, Nanos = 0\<rparr>"
    by (rule Date_normal[OF m d])
  show ?thesis
  proof (cases "Month now = 1")
    case True
    then show ?thesis
      by (simp add: c AddDate_def Date_def Let_def daysIn_def month_index_def)
  next
    case False
    with m have "1 \<le> Month now - 1" "Month now - 1 \<le> 12" by auto
    from Date_normal[OF this d, of "Year now" 0] m False show ?thesis
      by (simp add: c AddDate_def month_index_def)
  qed
qed

lemma tomorrow_valid:
  assumes "valid_time now"
  shows "1 \<le> Month (AddDate now 0 0 1) \<and> Month (AddDate now 0 0 1) \<le> 12
    \<and> 1 \<le> Day (AddDate now 0 0 1) \<and> 0 \<le> Nanos (AddDate now 0 0 1)
    \<and> month_index now \<le> month_index (AddDate now 0 0 1)
    \<and> month_index (AddDate now 0 0 1) \<le> month_index now + 1"
proof -
  from assms have m: "1 \<le> Month now" "Month now \<le> 12" "1 \<le> Day now"
      "Day now \<le> daysIn (Month now) (Year now)" "0 \<le> Nanos now"
    by (auto simp: valid_time_def)
  then have n: "(Month now - 1) div 12 = 0" "(Month now - 1) mod 12 + 1 = Month now"
    by auto
  show ?thesis
    using m by (auto simp: AddDate_def Date_def Let_def n month_index_def)
qed

lemma Before_first_of_month:
  assumes "1 \<le> Month t" "Month t \<le> 12" "Day t = 1" "Nanos t = 0"
    and "1 \<le> Month u" "Month u \<le> 12" "Day u = 1" "Nanos u = 0"
  shows "Before t u \<longleftrightarrow> month_index t < month_index u"
  using assms by (auto simp: Before_def month_index_def)

lemma After_first_of_month:
  assumes "1 \<le> Month t" "Month t \<le> 12" "Day t = 1" "Nanos t = 0"
    and "1 \<le> Month u" "Month u \<le> 12" "1 \<le> Day u" "0 \<le> Nanos u"
  shows "After t u \<longleftrightarrow> month_index u < month_index t"
  using assms by (auto simp: After_def Before_def month_index_def)

lemma UploadLog_date_check:
  assumes "auth s u pw" and "name \<noteq> []" and "parse_month date = Some dt"
  shows "(fst (UploadLog w s now
             \<lparr>BasicAuth = Some (u, pw), X_File_Date = date, X_File_Name = name, Body = b\<rparr> fsys)
           = date_out_of_range
          \<longleftrightarrow> Before dt (AddDate (Date (Year now) (Month now) 1 0) 0 (- 1) 0)
              \<or> After dt (AddDate now 0 0 1))
    \<and> fst (UploadLog w s now
             \<lparr>BasicAuth = Some (u, pw), X_File_Date = date, X_File_Name = name, Body = b\<rparr> fsys)
        \<in> {date_out_of_range, Response 201 JSONMessage, Response 500 (JSONError ''server_error''),
            Response 500 (JSONError ''write_failed'')}"
proof -
  from assms(3) have "date \<noteq> []" by auto
  with assms show ?thesis
    by (auto simp: UploadLog_def Let_def date_out_of_range_def split: sum.splits)
qed

text \<open>
  Claim C7.  For an authenticated upload at the UTC time \<open>now\<close> whose month token
  parses: the upload is rejected as out of range exactly when its month is earlier
  than the calendar month before \<open>now\<close> or later than the month of tomorrow
  (\<open>now\<close> plus one day).  So a month two months back or two months ahead is
  rejected, and the previous month and tomorrow's month pass the check: the
  handler goes on to storage and answers 201, or 500 when storage fails.
\<close>

theorem upload_month_window:
  assumes "valid_time now" and "auth s u pw" and "name \<noteq> []" and "parse_month date = Some dt"
  shows "(fst (UploadLog w s now
             \<lparr>BasicAuth = Some (u, pw), X_File_Date = date, X_File_Name = name, Body = b\<rparr> fsys)
           = date_out_of_range
          \<longleftrightarrow> month_index dt < month_index now - 1
              \<or> month_index (AddDate now 0 0 1) < month_index dt)
    \<and> (month_index dt = month_index now - 2 \<or> month_index dt = month_index now + 2 \<longrightarrow>
          fst (UploadLog w s now
             \<lparr>BasicAuth = Some (u, pw), X_File_Date = date, X_File_Name = name, Body = b\<rparr> fsys)
           = date_out_of_range)
    \<and> (month_index dt = month_index now - 1 \<or> month_index dt = month_index (AddDate now 0 0 1) \<longrightarrow>
          fst (UploadLog w s now
             \<lparr>BasicAuth = Some (u, pw), X_File_Date = date, X_File_Name = name, Body = b\<rparr> fsys)
           \<in> {Response 201 JSONMessage, Response 500 (JSONError ''server_error''),
               Response 500 (JSONError ''write_failed'')})"
proof -
  let ?resp = "fst (UploadLog w s now
             \<lparr>BasicAuth = Some (u, pw), X_File_Date = date, X_File_Name = name, Body = b\<rparr> fsys)"
  note p = parse_month_first[OF assms(4)]
  note f = first_of_last_month[OF assms(1)]
  note t = tomorrow_valid[OF assms(1)]
  have b: "Before dt (AddDate (Date (Year now) (Month now) 1 0) 0 (- 1) 0)
      \<longleftrightarrow> month_index dt < month_index now - 1"
    using Before_first_of_month[of dt "AddDate (Date (Year now) (Month now) 1 0) 0 (- 1) 0"] p f
    by simp
  have a: "After dt (AddDate now 0 0 1) \<longleftrightarrow> month_index (AddDate now 0 0 1) < month_index dt"
    using After_first_of_month[of dt "AddDate now 0 0 1"] p t
    by simp
  note c = UploadLog_date_check[OF assms(2,3,4), of w now b fsys]
  from c a b have 1: "?resp = date_out_of_range
      \<longleftrightarrow> month_index dt < month_index now - 1 \<or> month_index (AddDate now 0 0 1) < month_index dt"
    by simp
  from c have 2: "?resp \<noteq> date_out_of_range \<Longrightarrow>
      ?resp \<in> {Response 201 JSONMessage, Response 500 (JSONError ''server_error''),
               Response 500 (JSONError ''write_failed'')}"
    by auto
  have 3: "?resp = date_out_of_range"
    if "month_index dt = month_index now - 2 \<or> month_index dt = month_index now + 2"
    using that 1 t by auto
  have 4: "?resp \<noteq> date_out_of_range"
    if "month_index dt = month_index now - 1 \<or> month_index dt = month_index (AddDate now 0 0 1)"
    using that 1 t by auto
  from 1 2 3 4 show ?thesis by blast
qed

theorem upload_month_window_witness:
  "valid_time eom_now \<and> auth srv ''alice'' ''pw''
   \<and> parse_month ''2025-02'' = Some \<lparr>Year = 2025, Month = 2, Day = 1, Nanos = 0\<rparr>
   \<and> AddDate eom_now 0 0 1 = \<lparr>Year = 2025, Month = 2, Day = 1, Nanos = 82800000000000\<rparr>
   \<and> fst (UploadLog quiet srv eom_now (upload_for ''2025-02'') up_fs) = Response 201 JSONMessage
   \<and> fst (UploadLog quiet srv eom_now (upload_for ''2024-12'') up_fs) = Response 201 JSONMessage
   \<and> fst (UploadLog quiet srv eom_now (upload_for ''2024-11'') up_fs) = date_out_of_range
   \<and> fst (UploadLog quiet srv eom_now (upload_for ''2025-03'') up_fs) = date_out_of_range"
proof -
  have v: "valid_time eom_now"
    by (simp add: valid_time_def eom_now_def daysIn_def)
  have a: "auth srv ''alice'' ''pw''" by (simp add: srv_def)
  have n: "''a.log'' \<noteq> []" by simp
  have p: "parse_month ''2025-02'' = Some \<lparr>Year = 2025, Month = 2, Day = 1, Nanos = 0\<rparr>"
    "parse_month ''2024-12'' = Some \<lparr>Year = 2024, Month = 12, Day = 1, Nanos = 0\<rparr>"
    "parse_month ''2024-11'' = Some \<lparr>Year = 2024, Month = 11, Day = 1, Nanos = 0\<rparr>"
    "parse_month ''2025-03'' = Some \<lparr>Year = 2025, Month = 3, Day = 1, Nanos = 0\<rparr>"
    by (simp_all add: is_digit_def digit_def Date_def daysIn_def isLeap_def)
  have t: "AddDate eom_now 0 0 1 = \<lparr>Year = 2025, Month = 2, Day = 1, Nanos = 82800000000000\<rparr>"
    by (simp add: AddDate_def Date_def eom_now_def daysIn_def)
  have u: "upload_for d = \<lparr>BasicAuth = Some (''alice'', ''pw''), X_File_Date = d,
     X_File_Name = ''a.log'', Body = ''hello world''\<rparr>" for d
    by (simp add: upload_for_def)
  have e: "fst (UploadLog quiet srv eom_now (upload_for ''2025-02'') up_fs) = Response 201 JSONMessage"
    "fst (UploadLog quiet srv eom_now (upload_for ''2024-12'') up_fs) = Response 201 JSONMessage"
    by (simp_all add: UploadLog_def quiet_def srv_def eom_now_def upload_for_def up_fs_def
      is_digit_def digit_def Date_def AddDate_def daysIn_def isLeap_def Before_def After_def
      os_MkdirAll_def lookup_def os_Create_def is_dir_def os_Rename_def Let_def
      Join_def clean_step_def add_suffix_def)
  from upload_month_window[OF v a n p(3), of quiet "''hello world''" up_fs] t
  have 1: "fst (UploadLog quiet srv eom_now (upload_for ''2024-11'') up_fs) = date_out_of_range"
    by (simp add: u month_index_def eom_now_def)
  from upload_month_window[OF v a n p(4), of quiet "''hello world''" up_fs] t
  have 2: "fst (UploadLog quiet srv eom_now (upload_for ''2025-03'') up_fs) = date_out_of_range"
    by (simp add: u month_index_def eom_now_def)
  from v a p(1) t e 1 2 show ?thesis by simp
qed

end
